theory Spec2Isabelle
  imports Main "HOL-Library.Multiset" "HOL-Library.List_Lexorder" "HOL-Library.Sublist"
begin

section \<open>Strings\<close>

text \<open>
  A Python \<open>str\<close> is a sequence of code points and is compared code point by code point.
  It is modelled as a list of natural numbers with the lexicographic order on lists.
  \<open>py\<close> turns an ASCII literal of the source into such a list.
\<close>

type_synonym pystr = "nat list"

definition py :: "string \<Rightarrow> pystr" where
  "py s = map of_char s"

text \<open>\<open>str.isspace\<close> on one code point: the code points CPython classifies as whitespace.\<close>

definition isspace :: "nat \<Rightarrow> bool" where
  "isspace c \<longleftrightarrow>
     (0x09 \<le> c \<and> c \<le> 0x0D) \<or> (0x1C \<le> c \<and> c \<le> 0x20) \<or> c = 0x85 \<or> c = 0xA0 \<or>
     c = 0x1680 \<or> (0x2000 \<le> c \<and> c \<le> 0x200A) \<or> c = 0x2028 \<or> c = 0x2029 \<or>
     c = 0x202F \<or> c = 0x205F \<or> c = 0x3000"

text \<open>\<open>str.strip()\<close>: leading and trailing whitespace removed.\<close>

definition strip :: "pystr \<Rightarrow> pystr" where
  "strip s = rev (dropWhile isspace (rev (dropWhile isspace s)))"

section \<open>Data model\<close>

text \<open>
  A task is the dictionary \<open>{"text": .., "due": .., "priority": .., "completed": ..}\<close>
  that \<open>submit\<close> builds. The store is the list \<open>self.tasks\<close>.
\<close>

record task =
  "text" :: pystr
  due :: pystr
  priority :: pystr
  completed :: bool

text \<open>One line of the tree view: the \<open>values\<close> and \<open>tags\<close> given to \<open>tree.insert\<close>.\<close>

record row =
  "values" :: "pystr list"
  tags :: "pystr list"

text \<open>The fields of \<open>TaskMaster\<close> that the operations read and write.\<close>

record TaskMaster =
  tasks :: "task list"
  filter_state :: pystr
  sort_column :: "pystr option"
  sort_reverse :: bool
  search_var :: pystr
  tree :: "row list"

text \<open>The fields as \<open>__init__\<close> and \<open>create_widgets\<close> set them.\<close>

definition init_state :: TaskMaster where
  "init_state =
     \<lparr>tasks = [], filter_state = py ''all'', sort_column = None, sort_reverse = False,
      search_var = [], tree = []\<rparr>"

section \<open>The task list view\<close>

text \<open>
  The three \<open>continue\<close> tests of the loop of \<open>update_task_list\<close>. \<open>lower\<close> stands for
  \<open>str.lower\<close>, whose Unicode case tables are not part of the repository; it is a
  parameter of every operation that refreshes the view.
\<close>

definition skipped :: "(pystr \<Rightarrow> pystr) \<Rightarrow> pystr \<Rightarrow> pystr \<Rightarrow> task \<Rightarrow> bool" where
  "skipped lower fstate search_text t \<longleftrightarrow>
     (fstate = py ''active'' \<and> completed t) \<or>
     (fstate = py ''completed'' \<and> \<not> completed t) \<or>
     (search_text \<noteq> [] \<and> \<not> sublist search_text (lower (text t)))"

definition row_of :: "task \<Rightarrow> row" where
  "row_of t =
     \<lparr>values = [if completed t then [0x2713] else [], text t, due t, priority t],
      tags = (if completed t then [py ''completed''] else [])\<rparr>"

definition shown_tasks :: "(pystr \<Rightarrow> pystr) \<Rightarrow> TaskMaster \<Rightarrow> task list" where
  "shown_tasks lower st =
     (let search_text = strip (lower (search_var st))
      in filter (\<lambda>t. \<not> skipped lower (filter_state st) search_text t) (tasks st))"

definition update_task_list :: "(pystr \<Rightarrow> pystr) \<Rightarrow> TaskMaster \<Rightarrow> TaskMaster" where
  "update_task_list lower st = st\<lparr>tree := map row_of (shown_tasks lower st)\<rparr>"

definition set_filter :: "(pystr \<Rightarrow> pystr) \<Rightarrow> pystr \<Rightarrow> TaskMaster \<Rightarrow> TaskMaster" where
  "set_filter lower state st = update_task_list lower (st\<lparr>filter_state := state\<rparr>)"

section \<open>Sorting\<close>

text \<open>
  \<open>list.sort(key=f, reverse=r)\<close> is a stable sort; with \<open>reverse\<close> set, CPython reverses
  the list, sorts it stably in ascending order and reverses the result.
\<close>

definition py_sort :: "('a \<Rightarrow> 'k::linorder) \<Rightarrow> bool \<Rightarrow> 'a list \<Rightarrow> 'a list" where
  "py_sort f reverse xs = (if reverse then rev (sort_key f (rev xs)) else sort_key f xs)"

definition priority_order :: "pystr \<rightharpoonup> int" where
  "priority_order = [py ''Low'' \<mapsto> 1, py ''Normal'' \<mapsto> 2, py ''High'' \<mapsto> 3]"

text \<open>\<open>lambda x: priority_order.get(x.get("priority", ""), 0)\<close>\<close>

definition priority_key :: "task \<Rightarrow> int" where
  "priority_key x = (case priority_order (priority x) of Some n \<Rightarrow> n | None \<Rightarrow> 0)"

text \<open>\<open>lambda x: str(x.get(key, ""))\<close>; \<open>str\<close> of a boolean is \<open>True\<close> or \<open>False\<close>.\<close>

definition str_key :: "pystr \<Rightarrow> task \<Rightarrow> pystr" where
  "str_key key x =
     (if key = py ''text'' then text x
      else if key = py ''due'' then due x
      else if key = py ''priority'' then priority x
      else if key = py ''completed'' then (if completed x then py ''True'' else py ''False'')
      else [])"

definition sort_tasks :: "(pystr \<Rightarrow> pystr) \<Rightarrow> pystr \<Rightarrow> TaskMaster \<Rightarrow> TaskMaster" where
  "sort_tasks lower key st =
     (let st1 = st\<lparr>sort_reverse := (if sort_column st = Some key then \<not> sort_reverse st else False)\<rparr>;
          st2 = st1\<lparr>sort_column := Some key\<rparr>;
          st3 = (if key = py ''priority''
                 then st2\<lparr>tasks := py_sort priority_key (sort_reverse st2) (tasks st2)\<rparr>
                 else st2\<lparr>tasks := py_sort (str_key key) (sort_reverse st2) (tasks st2)\<rparr>)
      in update_task_list lower st3)"

section \<open>Adding, toggling, deleting and editing\<close>

text \<open>What an operation shows to the user: a \<open>messagebox.showwarning(title, message)\<close>
  dialog, or the closing of its input window by \<open>destroy()\<close>.\<close>

datatype ui_event = showwarning pystr pystr | destroy

text \<open>
  \<open>submit\<close> of \<open>open_task_window\<close>. \<open>task_text\<close> is the content of the entry; \<open>month\<close>,
  \<open>day\<close>, \<open>year\<close> and \<open>prio\<close> are the contents of the comboboxes of the detailed window,
  which are not read when \<open>simple\<close> is set.
\<close>

definition submit ::
  "(pystr \<Rightarrow> pystr) \<Rightarrow> bool \<Rightarrow> pystr \<Rightarrow> pystr \<Rightarrow> pystr \<Rightarrow> pystr \<Rightarrow> pystr \<Rightarrow> TaskMaster
     \<Rightarrow> ui_event list \<times> TaskMaster" where
  "submit lower simple task_text month day year prio st =
     (if strip task_text = []
      then ([showwarning (py ''Input Error'') (py ''Task cannot be empty.'')], st)
      else
        let due = (if \<not> simple then month @ py ''-'' @ day @ py ''-'' @ year else []);
            prio = (if \<not> simple then prio else []);
            task = \<lparr>text = task_text, due = due, priority = prio, completed = False\<rparr>
        in ([destroy], update_task_list lower (st\<lparr>tasks := tasks st @ [task]\<rparr>)))"

text \<open>
  The key of a row. \<open>toggle_task_completion\<close>, \<open>toggle_selected_completion\<close>,
  \<open>delete_selected_task\<close> and \<open>edit_task\<close> do not take the text of a task from the
  store: they read it back from the tree with \<open>self.tree.item(selected)['values'][1]\<close>.
  \<open>Treeview.item\<close> belongs to \<open>tkinter.ttk\<close>; it passes every value of the row through
  \<open>_convert_stringval\<close>, so what it returns is a \<open>str\<close> or an \<open>int\<close>. A Python \<open>str\<close>
  and an \<open>int\<close> are never equal.
\<close>

datatype pyval = PyStr pystr | PyInt int

text \<open>
  In the operations below, \<open>item_value\<close> stands for this read of the library: applied to
  the text that \<open>update_task_list\<close> inserted in a row, it is the value that
  \<open>self.tree.item(selected)['values'][1]\<close> returns for that row. It is a parameter, as
  \<open>lower\<close> is; \<open>convert_stringval\<close> below is the instance that follows \<open>tkinter.ttk\<close>.
  \<open>selected\<close> is the text inserted in the focused row of the tree, or \<open>None\<close> when no
  row has the focus.
\<close>

text \<open>The loop of \<open>toggle_completion\<close>: it stops at the first task with the given text.\<close>

fun toggle_loop :: "pyval \<Rightarrow> task list \<Rightarrow> task list" where
  "toggle_loop task_text [] = []"
| "toggle_loop task_text (t # ts) =
     (if PyStr (text t) = task_text then t\<lparr>completed := \<not> completed t\<rparr> # ts
      else t # toggle_loop task_text ts)"

definition toggle_completion :: "(pystr \<Rightarrow> pystr) \<Rightarrow> pyval \<Rightarrow> TaskMaster \<Rightarrow> TaskMaster" where
  "toggle_completion lower task_text st =
     update_task_list lower (st\<lparr>tasks := toggle_loop task_text (tasks st)\<rparr>)"

text \<open>
  \<open>toggle_task_completion\<close> (double click) and \<open>toggle_selected_completion\<close> (key): the
  two have the same body.
\<close>

definition toggle_task_completion ::
  "(pystr \<Rightarrow> pystr) \<Rightarrow> (pystr \<Rightarrow> pyval) \<Rightarrow> pystr option \<Rightarrow> TaskMaster \<Rightarrow> TaskMaster" where
  "toggle_task_completion lower item_value selected st =
     (case selected of
        None \<Rightarrow> st
      | Some row_text \<Rightarrow> toggle_completion lower (item_value row_text) st)"

definition toggle_selected_completion ::
  "(pystr \<Rightarrow> pystr) \<Rightarrow> (pystr \<Rightarrow> pyval) \<Rightarrow> pystr option \<Rightarrow> TaskMaster \<Rightarrow> TaskMaster" where
  "toggle_selected_completion lower item_value selected st =
     (case selected of
        None \<Rightarrow> st
      | Some row_text \<Rightarrow> toggle_completion lower (item_value row_text) st)"

text \<open>
  \<open>delete_selected_task\<close>: the tasks whose text differs from the key that was read back
  are kept.
\<close>

definition delete_selected_task ::
  "(pystr \<Rightarrow> pystr) \<Rightarrow> (pystr \<Rightarrow> pyval) \<Rightarrow> pystr option \<Rightarrow> TaskMaster \<Rightarrow> TaskMaster" where
  "delete_selected_task lower item_value selected st =
     (case selected of
        None \<Rightarrow> st
      | Some row_text \<Rightarrow>
          let task_text = item_value row_text
          in update_task_list lower
               (st\<lparr>tasks := filter (\<lambda>task. PyStr (text task) \<noteq> task_text) (tasks st)\<rparr>))"

text \<open>\<open>bool(task.get('due') or task.get('priority'))\<close>\<close>

definition is_detailed :: "task \<Rightarrow> bool" where
  "is_detailed t \<longleftrightarrow> due t \<noteq> [] \<or> priority t \<noteq> []"

text \<open>
  The loop of \<open>save_edit\<close>: it rewrites the first task with the old text and stops.
  \<open>old_text\<close> is the variable of \<open>edit_task\<close> that the closure reads: the key of the row.
\<close>

fun save_edit_loop ::
  "pyval \<Rightarrow> bool \<Rightarrow> pystr \<Rightarrow> pystr \<Rightarrow> pystr \<Rightarrow> pystr \<Rightarrow> pystr \<Rightarrow> task list \<Rightarrow> task list" where
  "save_edit_loop old_text detailed new_text month day year prio [] = []"
| "save_edit_loop old_text detailed new_text month day year prio (t # ts) =
     (if PyStr (text t) = old_text
      then (if detailed
            then t\<lparr>text := new_text, due := month @ py ''-'' @ day @ py ''-'' @ year,
                   priority := prio\<rparr>
            else t\<lparr>text := new_text\<rparr>) # ts
      else t # save_edit_loop old_text detailed new_text month day year prio ts)"

definition save_edit ::
  "(pystr \<Rightarrow> pystr) \<Rightarrow> pyval \<Rightarrow> bool \<Rightarrow> pystr \<Rightarrow> pystr \<Rightarrow> pystr \<Rightarrow> pystr \<Rightarrow> pystr \<Rightarrow> TaskMaster
     \<Rightarrow> ui_event list \<times> TaskMaster" where
  "save_edit lower old_text detailed new_text month day year prio st =
     (if new_text \<noteq> []
      then ([destroy],
            update_task_list lower
              (st\<lparr>tasks := save_edit_loop old_text detailed new_text month day year prio (tasks st)\<rparr>))
      else ([], st))"

text \<open>
  \<open>edit_task\<close> followed by the \<open>save_edit\<close> of the window it opens. No window is opened
  when no row has the focus or no task has a text equal to the key that was read back.
\<close>

definition edit_task ::
  "(pystr \<Rightarrow> pystr) \<Rightarrow> (pystr \<Rightarrow> pyval) \<Rightarrow> pystr option \<Rightarrow> pystr \<Rightarrow> pystr \<Rightarrow> pystr \<Rightarrow> pystr
     \<Rightarrow> pystr \<Rightarrow> TaskMaster \<Rightarrow> ui_event list \<times> TaskMaster" where
  "edit_task lower item_value selected new_text month day year prio st =
     (case selected of
        None \<Rightarrow> ([], st)
      | Some row_text \<Rightarrow>
          let old_text = item_value row_text
          in (case find (\<lambda>t. PyStr (text t) = old_text) (tasks st) of
                None \<Rightarrow> ([], st)
              | Some task \<Rightarrow>
                  save_edit lower old_text (is_detailed task) new_text month day year prio st))"

section \<open>Persistence\<close>

text \<open>
  \<open>save_tasks\<close> writes \<open>json.dump(self.tasks, f)\<close> to the tasks file and \<open>load_tasks\<close> reads
  it back with \<open>json.load(f)\<close>. Both functions belong to Python's standard library; they
  are modelled after CPython's \<open>json\<close> package (\<open>json/encoder.py\<close>, \<open>json/decoder.py\<close>,
  \<open>json/scanner.py\<close>) with its default settings. The file is the text that is written
  and read: a list of code points. Since the encoder emits printable ASCII only, neither
  the encoding of the file nor the translation of line ends changes it.
\<close>

datatype json =
    JNull | JBool bool | JNumber pystr | JString pystr
  | JArray "json list" | JObject "(pystr \<times> json) list"

text \<open>
  What \<open>json.load\<close> returns. A number is kept as the text that was matched; an object is
  the list of the items of the resulting \<open>dict\<close>, in insertion order.
\<close>

datatype error = JSONDecodeError | RecursionError

text \<open>
  \<open>JSONDecodeError\<close> is the exception of the decoder. \<open>RecursionError\<close> is the value of a
  scanner that has used up its recursion budget; the budget that \<open>json_loads\<close> hands out
  always suffices (lemma \<open>json_loads_error_kind\<close>), so the depth limit of the Python
  interpreter is not modelled.
\<close>

subsection \<open>Encoding\<close>

text \<open>\<open>'{0:04x}'.format(n)\<close> for \<open>n\<close> below \<open>0x10000\<close>: four lower-case hexadecimal digits.\<close>

definition hexdigit :: "nat \<Rightarrow> nat" where
  "hexdigit d = (if d < 10 then 48 + d else 87 + d)"

definition hex4 :: "nat \<Rightarrow> pystr" where
  "hex4 n = [hexdigit (n div 4096 mod 16), hexdigit (n div 256 mod 16),
             hexdigit (n div 16 mod 16), hexdigit (n mod 16)]"

text \<open>
  The replacement that \<open>encode_basestring_ascii\<close> makes for one code point: the short
  escapes of \<open>ESCAPE_DCT\<close>, the code point itself when it is printable ASCII, a
  four-digit unicode escape for every other code point below \<open>0x10000\<close>, and the
  escapes of the two surrogates \<open>0xd800 | ((n >> 10) & 0x3ff)\<close> and
  \<open>0xdc00 | (n & 0x3ff)\<close>, \<open>n\<close> being the code point minus \<open>0x10000\<close>, above.
\<close>

definition escape_char :: "nat \<Rightarrow> pystr" where
  "escape_char c =
     (if c = 0x5C then [0x5C, 0x5C]
      else if c = 0x22 then [0x5C, 0x22]
      else if c = 0x08 then [0x5C, 0x62]
      else if c = 0x0C then [0x5C, 0x66]
      else if c = 0x0A then [0x5C, 0x6E]
      else if c = 0x0D then [0x5C, 0x72]
      else if c = 0x09 then [0x5C, 0x74]
      else if 0x20 \<le> c \<and> c \<le> 0x7E then [c]
      else if c < 0x10000 then [0x5C, 0x75] @ hex4 c
      else
        let n = c - 0x10000;
            s1 = 0xD800 + (n div 0x400) mod 0x400;
            s2 = 0xDC00 + n mod 0x400
        in [0x5C, 0x75] @ hex4 s1 @ [0x5C, 0x75] @ hex4 s2)"

definition encode_basestring_ascii :: "pystr \<Rightarrow> pystr" where
  "encode_basestring_ascii s = [0x22] @ concat (map escape_char s) @ [0x22]"

text \<open>
  \<open>_iterencode_dict\<close> on a task, with the separators \<open>", "\<close> and \<open>": "\<close>, and
  \<open>_iterencode_list\<close> on the store: \<open>[]\<close> for the empty list, else the items with
  \<open>[\<close> before the first and \<open>", "\<close> before every other one, then \<open>]\<close>.
\<close>

definition iterencode_dict :: "task \<Rightarrow> pystr" where
  "iterencode_dict dct =
     py ''{'' @
     encode_basestring_ascii (py ''text'') @ py '': '' @ encode_basestring_ascii (text dct) @
     py '', '' @
     encode_basestring_ascii (py ''due'') @ py '': '' @ encode_basestring_ascii (due dct) @
     py '', '' @
     encode_basestring_ascii (py ''priority'') @ py '': '' @
       encode_basestring_ascii (priority dct) @
     py '', '' @
     encode_basestring_ascii (py ''completed'') @ py '': '' @
       (if completed dct then py ''true'' else py ''false'') @
     py ''}''"




subsection \<open>Decoding\<close>

text \<open>\<open>WHITESPACE\<close> is \<open>[ \t\n\r]*\<close>; \<open>skip_ws\<close> is the position after its match.\<close>

definition is_ws :: "nat \<Rightarrow> bool" where
  "is_ws c \<longleftrightarrow> c = 0x20 \<or> c = 0x09 \<or> c = 0x0A \<or> c = 0x0D"

definition skip_ws :: "pystr \<Rightarrow> pystr" where
  "skip_ws s = dropWhile is_ws s"

text \<open>The table \<open>BACKSLASH\<close> of the short escapes, and four hexadecimal digits read as
  a number, digit by digit as the accelerated scanner does (\<open>None\<close> where the decoder
  raises).\<close>

definition BACKSLASH :: "nat \<rightharpoonup> nat" where
  "BACKSLASH = [0x22 \<mapsto> 0x22, 0x5C \<mapsto> 0x5C, 0x2F \<mapsto> 0x2F, 0x62 \<mapsto> 0x08, 0x66 \<mapsto> 0x0C,
                0x6E \<mapsto> 0x0A, 0x72 \<mapsto> 0x0D, 0x74 \<mapsto> 0x09]"

definition hexval :: "nat \<Rightarrow> nat option" where
  "hexval c =
     (if 0x30 \<le> c \<and> c \<le> 0x39 then Some (c - 0x30)
      else if 0x61 \<le> c \<and> c \<le> 0x66 then Some (c - 0x61 + 10)
      else if 0x41 \<le> c \<and> c \<le> 0x46 then Some (c - 0x41 + 10)
      else None)"

definition decode_uXXXX :: "pystr \<Rightarrow> nat option" where
  "decode_uXXXX s =
     (case s of
        a # b # c # d # _ \<Rightarrow>
          (case (hexval a, hexval b, hexval c, hexval d) of
             (Some w, Some x, Some y, Some z) \<Rightarrow> Some (((w * 16 + x) * 16 + y) * 16 + z)
           | _ \<Rightarrow> None)
      | _ \<Rightarrow> None)"

definition append_char :: "nat \<Rightarrow> error + pystr \<times> pystr \<Rightarrow> error + pystr \<times> pystr" where
  "append_char c r = (case r of Inl e \<Rightarrow> Inl e | Inr (chunks, rest) \<Rightarrow> Inr (c # chunks, rest))"

text \<open>
  \<open>scanstring\<close>, from the character after the opening quote: the decoded string and the
  rest of the input after the closing quote. A high surrogate escape that is followed
  by a low surrogate escape is joined with it into one code point:
  \<open>0x10000 + (((uni - 0xd800) << 10) | (uni2 - 0xdc00))\<close>.
\<close>

fun scanstring :: "pystr \<Rightarrow> error + pystr \<times> pystr" where
  "scanstring [] = Inl JSONDecodeError"
| "scanstring (c # s) =
     (if c = 0x22 then Inr ([], s)
      else if c = 0x5C then
        (case s of
           [] \<Rightarrow> Inl JSONDecodeError
         | esc # s1 \<Rightarrow>
             if esc \<noteq> 0x75 then
               (case BACKSLASH esc of
                  None \<Rightarrow> Inl JSONDecodeError
                | Some char \<Rightarrow> append_char char (scanstring s1))
             else
               (case decode_uXXXX s1 of
                  None \<Rightarrow> Inl JSONDecodeError
                | Some uni \<Rightarrow>
                    if 0xD800 \<le> uni \<and> uni \<le> 0xDBFF \<and> take 2 (drop 4 s1) = [0x5C, 0x75] then
                      (case decode_uXXXX (drop 6 s1) of
                         None \<Rightarrow> Inl JSONDecodeError
                       | Some uni2 \<Rightarrow>
                           if 0xDC00 \<le> uni2 \<and> uni2 \<le> 0xDFFF
                           then append_char
                                  (0x10000 + ((uni - 0xD800) * 0x400 + (uni2 - 0xDC00)))
                                  (scanstring (drop 10 s1))
                           else append_char uni (scanstring (drop 4 s1)))
                    else append_char uni (scanstring (drop 4 s1))))
      else if c \<le> 0x1F then Inl JSONDecodeError
      else append_char c (scanstring s))"

text \<open>\<open>NUMBER_RE\<close>, that is \<open>(-?(?:0|[1-9]\d*))(\.\d+)?([eE][-+]?\d+)?\<close>, on ASCII digits.\<close>

definition is_digit :: "nat \<Rightarrow> bool" where
  "is_digit c \<longleftrightarrow> 0x30 \<le> c \<and> c \<le> 0x39"

definition match_integer :: "pystr \<Rightarrow> (pystr \<times> pystr) option" where
  "match_integer s =
     (let (sign, s1) = (case s of c # r \<Rightarrow> if c = 0x2D then ([c], r) else ([], s) | [] \<Rightarrow> ([], s))
      in case s1 of
           [] \<Rightarrow> None
         | d # s2 \<Rightarrow>
             if d = 0x30 then Some (sign @ [d], s2)
             else if 0x31 \<le> d \<and> d \<le> 0x39
             then Some (sign @ d # takeWhile is_digit s2, dropWhile is_digit s2)
             else None)"

definition match_frac :: "pystr \<Rightarrow> pystr \<times> pystr" where
  "match_frac s =
     (case s of
        p # d # s1 \<Rightarrow>
          if p = 0x2E \<and> is_digit d
          then (p # d # takeWhile is_digit s1, dropWhile is_digit s1) else ([], s)
      | _ \<Rightarrow> ([], s))"

definition match_exp :: "pystr \<Rightarrow> pystr \<times> pystr" where
  "match_exp s =
     (case s of
        e # s1 \<Rightarrow>
          if e = 0x65 \<or> e = 0x45 then
            (let (sign, s2) =
               (case s1 of c # r \<Rightarrow> if c = 0x2D \<or> c = 0x2B then ([c], r) else ([], s1)
                | [] \<Rightarrow> ([], s1))
             in case s2 of
                  d # s3 \<Rightarrow>
                    if is_digit d
                    then (e # sign @ d # takeWhile is_digit s3, dropWhile is_digit s3)
                    else ([], s)
                | [] \<Rightarrow> ([], s))
          else ([], s)
      | [] \<Rightarrow> ([], s))"

definition match_number :: "pystr \<Rightarrow> (pystr \<times> pystr) option" where
  "match_number s =
     (case match_integer s of
        None \<Rightarrow> None
      | Some (integer, s1) \<Rightarrow>
          (let (frac, s2) = match_frac s1; (exp, s3) = match_exp s2
           in Some (integer @ frac @ exp, s3)))"

text \<open>\<open>dict(pairs)\<close>: a repeated key keeps its first position and takes the last value.\<close>

fun setitem :: "('k \<times> 'v) list \<Rightarrow> 'k \<Rightarrow> 'v \<Rightarrow> ('k \<times> 'v) list" where
  "setitem [] k v = [(k, v)]"
| "setitem (p # ps) k v = (if fst p = k then (k, v) # ps else p # setitem ps k v)"

definition dict :: "('k \<times> 'v) list \<Rightarrow> ('k \<times> 'v) list" where
  "dict pairs = foldl (\<lambda>d (k, v). setitem d k v) [] pairs"

text \<open>
  \<open>scan_once\<close> with the loops of \<open>JSONObject\<close> and \<open>JSONArray\<close>. The first argument
  bounds the number of nested calls. \<open>JSONObject_loop\<close> starts after the opening quote of
  a key, \<open>JSONArray_loop\<close> at a value.
\<close>

fun scan_once :: "nat \<Rightarrow> pystr \<Rightarrow> error + json \<times> pystr"
  and JSONObject_loop :: "nat \<Rightarrow> (pystr \<times> json) list \<Rightarrow> pystr \<Rightarrow> error + json \<times> pystr"
  and JSONArray_loop :: "nat \<Rightarrow> json list \<Rightarrow> pystr \<Rightarrow> error + json \<times> pystr" where
  "scan_once 0 s = Inl RecursionError"
| "scan_once (Suc n) [] = Inl JSONDecodeError"
| "scan_once (Suc n) (nextchar # s) =
     (if nextchar = 0x22 then
        (case scanstring s of Inl e \<Rightarrow> Inl e | Inr (str, rest) \<Rightarrow> Inr (JString str, rest))
      else if nextchar = 0x7B then
        (case skip_ws s of
           [] \<Rightarrow> Inl JSONDecodeError
         | c # rest \<Rightarrow>
             if c = 0x7D then Inr (JObject [], rest)
             else if c = 0x22 then JSONObject_loop n [] rest
             else Inl JSONDecodeError)
      else if nextchar = 0x5B then
        (case skip_ws s of
           [] \<Rightarrow> Inl JSONDecodeError
         | c # rest \<Rightarrow>
             if c = 0x5D then Inr (JArray [], rest)
             else JSONArray_loop n [] (c # rest))
      else if prefix (py ''null'') (nextchar # s) then Inr (JNull, drop 3 s)
      else if prefix (py ''true'') (nextchar # s) then Inr (JBool True, drop 3 s)
      else if prefix (py ''false'') (nextchar # s) then Inr (JBool False, drop 4 s)
      else
        (case match_number (nextchar # s) of
           Some (lexeme, rest) \<Rightarrow> Inr (JNumber lexeme, rest)
         | None \<Rightarrow>
             if prefix (py ''NaN'') (nextchar # s) then Inr (JNumber (py ''NaN''), drop 2 s)
             else if prefix (py ''Infinity'') (nextchar # s)
             then Inr (JNumber (py ''Infinity''), drop 7 s)
             else if prefix (py ''-Infinity'') (nextchar # s)
             then Inr (JNumber (py ''-Infinity''), drop 8 s)
             else Inl JSONDecodeError))"
| "JSONObject_loop 0 pairs s = Inl RecursionError"
| "JSONObject_loop (Suc n) pairs s =
     (case scanstring s of
        Inl e \<Rightarrow> Inl e
      | Inr (key, s1) \<Rightarrow>
          (case skip_ws s1 of
             [] \<Rightarrow> Inl JSONDecodeError
           | c # s2 \<Rightarrow>
               if c \<noteq> 0x3A then Inl JSONDecodeError
               else
                 (case scan_once n (skip_ws s2) of
                    Inl e \<Rightarrow> Inl e
                  | Inr (value, s3) \<Rightarrow>
                      (case skip_ws s3 of
                         [] \<Rightarrow> Inl JSONDecodeError
                       | nextchar # s4 \<Rightarrow>
                           if nextchar = 0x7D
                           then Inr (JObject (dict (pairs @ [(key, value)])), s4)
                           else if nextchar \<noteq> 0x2C then Inl JSONDecodeError
                           else
                             (case skip_ws s4 of
                                [] \<Rightarrow> Inl JSONDecodeError
                              | q # s5 \<Rightarrow>
                                  if q \<noteq> 0x22 then Inl JSONDecodeError
                                  else JSONObject_loop n (pairs @ [(key, value)]) s5)))))"
| "JSONArray_loop 0 vals s = Inl RecursionError"
| "JSONArray_loop (Suc n) vals s =
     (case scan_once n s of
        Inl e \<Rightarrow> Inl e
      | Inr (value, s1) \<Rightarrow>
          (case skip_ws s1 of
             [] \<Rightarrow> Inl JSONDecodeError
           | nextchar # s2 \<Rightarrow>
               if nextchar = 0x5D then Inr (JArray (vals @ [value]), s2)
               else if nextchar \<noteq> 0x2C then Inl JSONDecodeError
               else JSONArray_loop n (vals @ [value]) (skip_ws s2)))"

text \<open>\<open>json.loads\<close>: no byte order mark, one value, nothing but whitespace after it.\<close>

definition json_loads :: "pystr \<Rightarrow> error + json" where
  "json_loads s =
     (if prefix [0xFEFF] s then Inl JSONDecodeError
      else
        (case scan_once (2 * length s + 1) (skip_ws s) of
           Inl e \<Rightarrow> Inl e
         | Inr (obj, rest) \<Rightarrow> if skip_ws rest \<noteq> [] then Inl JSONDecodeError else Inr obj))"

text \<open>
  The dictionaries of the store as tasks: exactly the keys \<open>text\<close>, \<open>due\<close>, \<open>priority\<close>
  and \<open>completed\<close>, in the order in which \<open>submit\<close> creates them, with strings and a
  boolean as values.
\<close>

fun task_of_json :: "json \<Rightarrow> task option" where
  "task_of_json (JObject [(k1, JString t), (k2, JString d), (k3, JString p), (k4, JBool c)]) =
     (if k1 = py ''text'' \<and> k2 = py ''due'' \<and> k3 = py ''priority'' \<and> k4 = py ''completed''
      then Some \<lparr>text = t, due = d, priority = p, completed = c\<rparr> else None)"
| "task_of_json _ = None"

fun tasks_of_json :: "json \<Rightarrow> task list option" where
  "tasks_of_json (JArray vs) = those (map task_of_json vs)"
| "tasks_of_json _ = None"

text \<open>
  \<open>load_tasks\<close>. \<open>file\<close> is the content of the tasks file, or \<open>None\<close> when
  \<open>os.path.exists\<close> is false. No exception is caught. \<open>json.load\<close> returns whatever
  value the document holds, and \<open>load_tasks\<close> assigns it to \<open>self.tasks\<close>. When the
  value is a list of task dictionaries, the program goes on in the state \<open>Loaded st\<close>.
  Any other value \<open>v\<close> is outside the data model above: the result is \<open>Foreign v\<close>,
  which says that \<open>json.load\<close> has returned \<open>v\<close> without an exception and that
  \<open>self.tasks\<close> is \<open>v\<close>; what \<open>update_task_list\<close> and the later operations do with
  such a store is not followed.
\<close>

datatype loaded = Loaded TaskMaster | Foreign json

definition load_tasks :: "(pystr \<Rightarrow> pystr) \<Rightarrow> pystr option \<Rightarrow> TaskMaster \<Rightarrow> error + loaded" where
  "load_tasks lower file st =
     (case file of
        None \<Rightarrow> Inr (Loaded st)
      | Some doc \<Rightarrow>
          (case json_loads doc of
             Inl e \<Rightarrow> Inl e
           | Inr v \<Rightarrow>
               (case tasks_of_json v of
                  None \<Rightarrow> Inr (Foreign v)
                | Some ts \<Rightarrow> Inr (Loaded (update_task_list lower (st\<lparr>tasks := ts\<rparr>))))))"

text \<open>
  \<open>__init__\<close>, as far as the store is concerned: the initial fields, then \<open>load_tasks\<close>;
  an exception of \<open>load_tasks\<close> leaves \<open>__init__\<close>.
\<close>

definition TaskMaster_init :: "(pystr \<Rightarrow> pystr) \<Rightarrow> pystr option \<Rightarrow> error + loaded" where
  "TaskMaster_init lower file = load_tasks lower file init_state"

section \<open>Auxiliary notions for the statements\<close>

text \<open>The positions in \<open>self.tasks\<close> of the tasks that \<open>update_task_list\<close> shows.\<close>

definition shown_positions :: "(pystr \<Rightarrow> pystr) \<Rightarrow> TaskMaster \<Rightarrow> nat list" where
  "shown_positions lower st =
     (let search_text = strip (lower (search_var st))
      in filter (\<lambda>i. \<not> skipped lower (filter_state st) search_text (tasks st ! i))
           [0..<length (tasks st)])"

text \<open>The order of priorities as the specification words it: Low, Normal, High, then
  every other value.\<close>

definition spec_priority_rank :: "pystr \<Rightarrow> nat" where
  "spec_priority_rank p =
     (if p = py ''Low'' then 0 else if p = py ''Normal'' then 1
      else if p = py ''High'' then 2 else 3)"

text \<open>Whether something shown to the user is a warning dialog.\<close>

fun is_warning :: "ui_event \<Rightarrow> bool" where
  "is_warning (showwarning title message) = True"
| "is_warning destroy = False"

text \<open>\<open>str.lower\<close> on ASCII text, an instance of the parameter \<open>lower\<close>.\<close>

definition ascii_lower :: "pystr \<Rightarrow> pystr" where
  "ascii_lower s = map (\<lambda>c. if 65 \<le> c \<and> c \<le> 90 then c + 32 else c) s"

text \<open>
  \<open>ttk._convert_stringval\<close>, the conversion that \<open>Treeview.item\<close> applies to every value
  of a row: \<open>value = str(value)\<close>, then \<open>int(value)\<close> when that raises no \<open>ValueError\<close>.
  It is the instance of the parameter \<open>item_value\<close> for a tree that hands the inserted
  text back as it is. \<open>py_int\<close> is \<open>int\<close> on a \<open>str\<close> as CPython 3.11 computes it
  (\<open>PyLong_FromUnicodeObject\<close> with base 10): whitespace on both sides is skipped, one
  sign is read, then decimal digits follow, which single underscores may separate; more
  than 4300 digits are refused. A code point below 127 counts as whitespace when it is
  one of \<open>\t\n\v\f\r\<close> and the blank, and as a digit when it is one of \<open>0\<close> to \<open>9\<close>; any
  other code point counts as whitespace when \<open>str.isspace\<close> holds of it, and as a digit
  when Unicode gives it a decimal value (\<open>decimal_zeros\<close> lists the zero digits of the
  scripts of Unicode 14, each followed by its digits one to nine).
\<close>

definition decimal_zeros :: "nat list" where
  "decimal_zeros =
     [0x30, 0x660, 0x6F0, 0x7C0, 0x966, 0x9E6, 0xA66, 0xAE6, 0xB66, 0xBE6, 0xC66, 0xCE6,
      0xD66, 0xDE6, 0xE50, 0xED0, 0xF20, 0x1040, 0x1090, 0x17E0, 0x1810, 0x1946, 0x19D0,
      0x1A80, 0x1A90, 0x1B50, 0x1BB0, 0x1C40, 0x1C50, 0xA620, 0xA8D0, 0xA900, 0xA9D0,
      0xA9F0, 0xAA50, 0xABF0, 0xFF10, 0x104A0, 0x10D30, 0x11066, 0x110F0, 0x11136,
      0x111D0, 0x112F0, 0x11450, 0x114D0, 0x11650, 0x116C0, 0x11730, 0x118E0, 0x11950,
      0x11C50, 0x11D50, 0x11DA0, 0x16A60, 0x16AC0, 0x16B50, 0x1D7CE, 0x1D7D8, 0x1D7E2,
      0x1D7EC, 0x1D7F6, 0x1E140, 0x1E2F0, 0x1E950, 0x1FBF0]"

definition to_decimal :: "nat \<Rightarrow> nat option" where
  "to_decimal c = map_option (\<lambda>z. c - z) (find (\<lambda>z. z \<le> c \<and> c < z + 10) decimal_zeros)"

definition int_space :: "nat \<Rightarrow> bool" where
  "int_space c \<longleftrightarrow> (0x09 \<le> c \<and> c \<le> 0x0D) \<or> c = 0x20 \<or> (127 \<le> c \<and> isspace c)"

definition int_digit_or_underscore :: "nat \<Rightarrow> bool" where
  "int_digit_or_underscore c \<longleftrightarrow> c = 0x5F \<or> to_decimal c \<noteq> None"

definition py_int :: "pystr \<Rightarrow> int option" where
  "py_int s =
     (let s1 = dropWhile int_space s;
          negative = (take 1 s1 = [0x2D]);
          s2 = (if take 1 s1 = [0x2B] \<or> take 1 s1 = [0x2D] then drop 1 s1 else s1);
          body = takeWhile int_digit_or_underscore s2;
          rest = dropWhile int_digit_or_underscore s2;
          digits = List.map_filter to_decimal body
      in if body = [] \<or> hd body = 0x5F \<or> last body = 0x5F \<or> sublist [0x5F, 0x5F] body \<or>
            4300 < length digits \<or> dropWhile int_space rest \<noteq> []
         then None
         else Some ((if negative then - 1 else 1) * int (foldl (\<lambda>a d. 10 * a + d) 0 digits)))"

definition convert_stringval :: "pystr \<Rightarrow> pyval" where
  "convert_stringval v = (case py_int v of Some n \<Rightarrow> PyInt n | None \<Rightarrow> PyStr v)"










definition dict_of_task :: "task \<Rightarrow> json" where
  "dict_of_task t =
     JObject [(py ''text'', JString (text t)), (py ''due'', JString (due t)),
              (py ''priority'', JString (priority t)), (py ''completed'', JBool (completed t))]"

section \<open>Basic facts\<close>

lemma strip_empty_iff: "strip s = [] \<longleftrightarrow> (\<forall>c\<in>set s. isspace c)"
proof
  assume "strip s = []"
  then have "dropWhile isspace (rev (dropWhile isspace s)) = []"
    by (simp add: strip_def)
  then have all: "\<forall>c\<in>set (dropWhile isspace s). isspace c"
    by (simp add: dropWhile_eq_Nil_conv)
  have "dropWhile isspace s = []"
  proof (rule ccontr)
    assume ne: "dropWhile isspace s \<noteq> []"
    then have "\<not> isspace (hd (dropWhile isspace s))" by (rule hd_dropWhile)
    moreover have "hd (dropWhile isspace s) \<in> set (dropWhile isspace s)" using ne by simp
    ultimately show False using all by blast
  qed
  then show "\<forall>c\<in>set s. isspace c" by (simp add: dropWhile_eq_Nil_conv)
next
  assume "\<forall>c\<in>set s. isspace c"
  then show "strip s = []"
    by (auto simp: strip_def dest: set_dropWhileD)
qed

lemma tasks_update_task_list [simp]: "tasks (update_task_list lower st) = tasks st"
  by (simp add: update_task_list_def)

lemma sort_flags_update_task_list [simp]:
  "sort_reverse (update_task_list lower st) = sort_reverse st"
  "sort_column (update_task_list lower st) = sort_column st"
  by (simp_all add: update_task_list_def)

lemma tasks_sort_tasks:
  "tasks (sort_tasks lower key st) =
     (if key = py ''priority''
      then py_sort priority_key (sort_reverse (sort_tasks lower key st)) (tasks st)
      else py_sort (str_key key) (sort_reverse (sort_tasks lower key st)) (tasks st))"
  by (simp add: sort_tasks_def Let_def)

lemma priority_key_values:
  "priority_key t =
     (if priority t = py ''Low'' then 1 else if priority t = py ''Normal'' then 2
      else if priority t = py ''High'' then 3 else 0)"
  by (simp add: priority_key_def priority_order_def py_def)

lemma toggle_loop_no_match: "\<forall>t\<in>set ts. PyStr (text t) \<noteq> k \<Longrightarrow> toggle_loop k ts = ts"
  by (induction ts) auto

lemma toggle_loop_first:
  "\<forall>p\<in>set ps. text p \<noteq> k \<Longrightarrow> text t = k \<Longrightarrow>
   toggle_loop (PyStr k) (ps @ t # ss) = ps @ t\<lparr>completed := \<not> completed t\<rparr> # ss"
  by (induction ps) auto

lemma save_edit_loop_first:
  "\<forall>p\<in>set ps. text p \<noteq> old \<Longrightarrow> text t = old \<Longrightarrow>
   save_edit_loop (PyStr old) d new m dy y pr (ps @ t # ss) =
     ps @ (if d then t\<lparr>text := new, due := m @ py ''-'' @ dy @ py ''-'' @ y, priority := pr\<rparr>
           else t\<lparr>text := new\<rparr>) # ss"
  by (induction ps) auto

lemma tasks_delete_selected_task:
  "tasks (delete_selected_task lower item_value (Some k) st) =
     filter (\<lambda>t. PyStr (text t) \<noteq> item_value k) (tasks st)"
  by (simp add: delete_selected_task_def Let_def)

lemma tasks_toggle_selected_completion:
  "tasks (toggle_selected_completion lower item_value (Some k) st) =
     toggle_loop (item_value k) (tasks st)"
  by (simp add: toggle_selected_completion_def toggle_completion_def)

lemma py_int_no_digit:
  assumes "s \<noteq> []" and "\<not> int_space (hd s)" and "hd s \<noteq> 0x2B" and "hd s \<noteq> 0x2D"
    and "\<not> int_digit_or_underscore (hd s)"
  shows "py_int s = None"
proof -
  from assms obtain c r where s: "s = c # r" by (cases s) auto
  with assms show ?thesis
    by (simp add: py_int_def Let_def)
qed

lemma int_class_letters: "\<not> int_digit_or_underscore 0x42" "\<not> int_digit_or_underscore 0x44"
  by (simp_all add: int_digit_or_underscore_def to_decimal_def decimal_zeros_def)

lemma convert_stringval_plain:
  "convert_stringval (py ''Buy milk'') = PyStr (py ''Buy milk'')"
  "convert_stringval (py ''Dup'') = PyStr (py ''Dup'')"
proof -
  have "py_int (py ''Buy milk'') = None"
    by (rule py_int_no_digit) (simp_all add: py_def int_class_letters int_space_def isspace_def)
  then show "convert_stringval (py ''Buy milk'') = PyStr (py ''Buy milk'')"
    by (simp add: convert_stringval_def)
  have "py_int (py ''Dup'') = None"
    by (rule py_int_no_digit) (simp_all add: py_def int_class_letters int_space_def isspace_def)
  then show "convert_stringval (py ''Dup'') = PyStr (py ''Dup'')"
    by (simp add: convert_stringval_def)
qed

lemma int_class_digits:
  "\<not> int_space 0x30" "int_digit_or_underscore 0x30" "int_digit_or_underscore 0x37"
  "to_decimal 0x30 = Some 0" "to_decimal 0x37 = Some 7"
  by (simp_all add: int_space_def int_digit_or_underscore_def to_decimal_def decimal_zeros_def)

lemma convert_stringval_007: "convert_stringval (py ''007'') = PyInt 7"
proof -
  have e: "py ''007'' = [0x30, 0x30, 0x37]"
    by (simp add: py_def)
  have "py_int [0x30, 0x30, 0x37] = Some 7"
    by (simp add: py_int_def Let_def int_class_digits sublist_code List.map_filter_simps)
  then show ?thesis
    by (simp add: convert_stringval_def e)
qed

text \<open>
  The conversion at other texts, as \<open>int\<close> of CPython 3.11 answers them: integers with
  blanks around them, with a sign, with an underscore between digits, or written in the
  digits of another script are read as integers; the empty text, a blank, a misplaced
  underscore, a letter or a point leave the text as it is. From 4301 digits on, \<open>int\<close>
  refuses the text.
\<close>

lemma int_class_examples:
  "int_space 0x9 = True"
  "int_digit_or_underscore 0x9 = False"
  "to_decimal 0x9 = None"
  "int_space 0xA = True"
  "int_digit_or_underscore 0xA = False"
  "to_decimal 0xA = None"
  "int_space 0x1C = False"
  "int_digit_or_underscore 0x1C = False"
  "to_decimal 0x1C = None"
  "int_space 0x20 = True"
  "int_digit_or_underscore 0x20 = False"
  "to_decimal 0x20 = None"
  "int_space 0x2B = False"
  "int_digit_or_underscore 0x2B = False"
  "to_decimal 0x2B = None"
  "int_space 0x2D = False"
  "int_digit_or_underscore 0x2D = False"
  "to_decimal 0x2D = None"
  "int_space 0x2E = False"
  "int_digit_or_underscore 0x2E = False"
  "to_decimal 0x2E = None"
  "int_space 0x30 = False"
  "int_digit_or_underscore 0x30 = True"
  "to_decimal 0x30 = Some 0"
  "int_space 0x31 = False"
  "int_digit_or_underscore 0x31 = True"
  "to_decimal 0x31 = Some 1"
  "int_space 0x32 = False"
  "int_digit_or_underscore 0x32 = True"
  "to_decimal 0x32 = Some 2"
  "int_space 0x34 = False"
  "int_digit_or_underscore 0x34 = True"
  "to_decimal 0x34 = Some 4"
  "int_space 0x35 = False"
  "int_digit_or_underscore 0x35 = True"
  "to_decimal 0x35 = Some 5"
  "int_space 0x37 = False"
  "int_digit_or_underscore 0x37 = True"
  "to_decimal 0x37 = Some 7"
  "int_space 0x5F = False"
  "int_digit_or_underscore 0x5F = True"
  "to_decimal 0x5F = None"
  "int_space 0x61 = False"
  "int_digit_or_underscore 0x61 = False"
  "to_decimal 0x61 = None"
  "int_space 0xA0 = True"
  "int_digit_or_underscore 0xA0 = False"
  "to_decimal 0xA0 = None"
  "int_space 0x662 = False"
  "int_digit_or_underscore 0x662 = True"
  "to_decimal 0x662 = Some 2"
  "int_space 0x663 = False"
  "int_digit_or_underscore 0x663 = True"
  "to_decimal 0x663 = Some 3"
  "int_space 0x3000 = True"
  "int_digit_or_underscore 0x3000 = False"
  "to_decimal 0x3000 = None"
  "int_space 0xFF14 = False"
  "int_digit_or_underscore 0xFF14 = True"
  "to_decimal 0xFF14 = Some 4"
  by (simp_all add: int_space_def int_digit_or_underscore_def to_decimal_def isspace_def
      decimal_zeros_def)

lemma convert_stringval_examples:
  "convert_stringval [0x32, 0x30, 0x32, 0x34] = PyInt 2024"
  "convert_stringval [0x20, 0x37, 0x20] = PyInt 7"
  "convert_stringval [0x31, 0x5F, 0x30, 0x30, 0x30] = PyInt 1000"
  "convert_stringval [0x2D, 0x31, 0x32] = PyInt (- 12)"
  "convert_stringval [0x2B, 0x35] = PyInt 5"
  "convert_stringval [0x663] = PyInt 3"
  "convert_stringval [0xA0, 0x37] = PyInt 7"
  "convert_stringval [] = PyStr []"
  "convert_stringval [0x20] = PyStr [0x20]"
  "convert_stringval [0x31, 0x5F, 0x5F, 0x30] = PyStr [0x31, 0x5F, 0x5F, 0x30]"
  "convert_stringval [0x5F, 0x31] = PyStr [0x5F, 0x31]"
  "convert_stringval [0x31, 0x5F] = PyStr [0x31, 0x5F]"
  "convert_stringval [0x31, 0x32, 0x61] = PyStr [0x31, 0x32, 0x61]"
  "convert_stringval [0x1C, 0x37] = PyStr [0x1C, 0x37]"
  "convert_stringval [0x2D, 0x20, 0x31] = PyStr [0x2D, 0x20, 0x31]"
  "convert_stringval [0x31, 0x20, 0x32] = PyStr [0x31, 0x20, 0x32]"
  "convert_stringval [0x31, 0x2E, 0x35] = PyStr [0x31, 0x2E, 0x35]"
  "convert_stringval [0x2B, 0x2D, 0x31] = PyStr [0x2B, 0x2D, 0x31]"
  "convert_stringval [0x9, 0x34, 0x32, 0xA] = PyInt 42"
  "convert_stringval [0x3000, 0xFF14, 0x662] = PyInt 42"
  by (simp_all add: convert_stringval_def py_int_def Let_def int_class_examples sublist_code
      List.map_filter_simps)


lemma py_int_digit_limit:
  "py_int (replicate 4300 0x31) \<noteq> None" "py_int (replicate 4301 0x31) = None"
proof -
  have d: "int_digit_or_underscore 0x31" "to_decimal 0x31 = Some 1" "\<not> int_space 0x31"
    by (simp_all add: int_class_examples)
  have tw: "takeWhile int_digit_or_underscore (replicate n 0x31) = replicate n 0x31" for n
    using d by (induction n) simp_all
  have dw: "dropWhile int_digit_or_underscore (replicate n 0x31) = []" for n
    using d by (induction n) simp_all
  have sp: "dropWhile int_space (replicate n 0x31) = replicate n 0x31" for n
    using d by (cases n) simp_all
  have mf: "List.map_filter to_decimal (replicate n 0x31) = replicate n 1" for n
    using d by (induction n) (simp_all add: List.map_filter_simps)
  have sub: "\<not> sublist [0x5F, 0x5F] (replicate n (0x31 :: nat))" for n
  proof
    assume "sublist [0x5F, 0x5F] (replicate n (0x31 :: nat))"
    then have "set [0x5F, 0x5F :: nat] \<subseteq> set (replicate n 0x31)"
      by (rule set_mono_sublist)
    then show False by (cases n) simp_all
  qed
  have tk: "take 1 (replicate (Suc n) (0x31 :: nat)) = [0x31]" for n
    by simp
  have n1: "(4300 :: nat) = Suc 4299" and n2: "(4301 :: nat) = Suc 4300"
    by simp_all
  have hl: "hd (replicate (Suc n) (0x31 :: nat)) = 0x31" "last (replicate (Suc n) (0x31 :: nat)) = 0x31" for n
    by (simp_all del: replicate.simps)
  show "py_int (replicate 4300 0x31) \<noteq> None"
    unfolding n1 py_int_def Let_def sp tk
    by (simp add: d tw dw mf sub hl del: replicate.simps)
  show "py_int (replicate 4301 0x31) = None"
    unfolding n2 py_int_def Let_def sp tk
    by (simp add: d tw dw mf sub hl del: replicate.simps)
qed

text \<open>
  What the operations on the focused row do with the key: a key that is an integer
  matches no task, so nothing is removed and nothing is flipped; a key that is the text
  of the row removes every task with that text, and flips the first one only.
\<close>

lemma toggle_loop_int: "toggle_loop (PyInt n) ts = ts"
  by (induction ts) auto

lemma toggle_task_completion_eq:
  "toggle_task_completion lower item_value selected st =
     toggle_selected_completion lower item_value selected st"
  by (simp add: toggle_task_completion_def toggle_selected_completion_def)

lemma delete_selected_task_int:
  "item_value k = PyInt n \<Longrightarrow>
   tasks (delete_selected_task lower item_value (Some k) st) = tasks st"
  by (simp add: tasks_delete_selected_task)

lemma delete_selected_task_str:
  "item_value k = PyStr k \<Longrightarrow>
   tasks (delete_selected_task lower item_value (Some k) st) =
     filter (\<lambda>t. text t \<noteq> k) (tasks st)"
  by (simp add: tasks_delete_selected_task)

lemma toggle_selected_completion_int:
  "item_value k = PyInt n \<Longrightarrow>
   tasks (toggle_selected_completion lower item_value (Some k) st) = tasks st"
  by (simp add: tasks_toggle_selected_completion toggle_loop_int)

lemma toggle_selected_completion_str:
  "item_value k = PyStr k \<Longrightarrow> tasks st = ps @ t # ss \<Longrightarrow> \<forall>p\<in>set ps. text p \<noteq> k \<Longrightarrow>
   text t = k \<Longrightarrow>
   tasks (toggle_selected_completion lower item_value (Some k) st) =
     ps @ t\<lparr>completed := \<not> completed t\<rparr> # ss"
  by (simp add: tasks_toggle_selected_completion toggle_loop_first)

lemma edit_task_int:
  "item_value k = PyInt n \<Longrightarrow>
   edit_task lower item_value (Some k) new_text month day year prio st = ([], st)"
proof -
  assume "item_value k = PyInt n"
  moreover have "find (\<lambda>t. PyStr (text t) = PyInt n) ts = None" for ts :: "task list"
    by (induction ts) simp_all
  ultimately show ?thesis
    by (simp add: edit_task_def Let_def)
qed

lemma find_first:
  "\<forall>p\<in>set ps. \<not> P p \<Longrightarrow> P t \<Longrightarrow> find P (ps @ t # ss) = Some t"
  by (induction ps) auto

lemma shown_tasks_positions:
  "shown_tasks lower st = map ((!) (tasks st)) (shown_positions lower st)"
proof -
  have "filter P xs = map ((!) xs) (filter (\<lambda>i. P (xs ! i)) [0..<length xs])"
    for P and xs :: "task list"
  proof -
    have "filter P xs = filter P (map ((!) xs) [0..<length xs])"
      by (simp add: map_nth)
    also have "\<dots> = map ((!) xs) (filter (P \<circ> (!) xs) [0..<length xs])"
      by (rule filter_map)
    finally show ?thesis by (simp add: comp_def)
  qed
  then show ?thesis
    by (simp add: shown_tasks_def shown_positions_def Let_def)
qed

section \<open>Sorting by priority\<close>

text \<open>
  C1, as the specification words it: an ascending sort by priority puts Low before Normal
  before High before every unknown or empty priority. The code gives an unknown or empty
  priority the key 0, so such tasks come first, not last: with a High task followed by a
  task without priority, the ascending sort puts the task without priority in front.
\<close>

theorem sort_priority_unknown_last_counterexample:
  "\<not> (sort_reverse (sort_tasks ascii_lower (py ''priority'')
          (init_state\<lparr>tasks :=
             [\<lparr>text = py ''a'', due = [], priority = py ''High'', completed = False\<rparr>,
              \<lparr>text = py ''b'', due = [], priority = [], completed = False\<rparr>]\<rparr>)) = False \<longrightarrow>
      sorted (map (spec_priority_rank \<circ> priority)
        (tasks (sort_tasks ascii_lower (py ''priority'')
          (init_state\<lparr>tasks :=
             [\<lparr>text = py ''a'', due = [], priority = py ''High'', completed = False\<rparr>,
              \<lparr>text = py ''b'', due = [], priority = [], completed = False\<rparr>]\<rparr>)))))"
  by (simp add: sort_tasks_def init_state_def py_sort_def priority_key_def priority_order_def
      spec_priority_rank_def py_def Let_def)

text \<open>
  C1, amended: whenever a sort by priority runs ascending (the direction flag is false
  after the call), the tasks end up ordered by the key Low = 1, Normal = 2, High = 3,
  anything else = 0, that is unknown or empty first, then Low, Normal, High. The sort
  permutes the store and keeps tasks of equal key in their previous order.
\<close>

theorem sort_priority_ascending:
  "sort_reverse (sort_tasks lower (py ''priority'') st) = False \<longrightarrow>
     sorted (map priority_key (tasks (sort_tasks lower (py ''priority'') st))) \<and>
     mset (tasks (sort_tasks lower (py ''priority'') st)) = mset (tasks st) \<and>
     (\<forall>k. filter (\<lambda>t. priority_key t = k) (tasks (sort_tasks lower (py ''priority'') st)) =
          filter (\<lambda>t. priority_key t = k) (tasks st)) \<and>
     (\<forall>t. priority_key t =
          (if priority t = py ''Low'' then 1 else if priority t = py ''Normal'' then 2
           else if priority t = py ''High'' then 3 else 0))"
proof
  assume asc: "sort_reverse (sort_tasks lower (py ''priority'') st) = False"
  have eq: "tasks (sort_tasks lower (py ''priority'') st) = sort_key priority_key (tasks st)"
    by (simp add: tasks_sort_tasks asc py_sort_def)
  show "sorted (map priority_key (tasks (sort_tasks lower (py ''priority'') st))) \<and>
     mset (tasks (sort_tasks lower (py ''priority'') st)) = mset (tasks st) \<and>
     (\<forall>k. filter (\<lambda>t. priority_key t = k) (tasks (sort_tasks lower (py ''priority'') st)) =
          filter (\<lambda>t. priority_key t = k) (tasks st)) \<and>
     (\<forall>t. priority_key t =
          (if priority t = py ''Low'' then 1 else if priority t = py ''Normal'' then 2
           else if priority t = py ''High'' then 3 else 0))"
  proof (intro conjI allI)
    show "sorted (map priority_key (tasks (sort_tasks lower (py ''priority'') st)))"
      unfolding eq by simp
    show "mset (tasks (sort_tasks lower (py ''priority'') st)) = mset (tasks st)"
      unfolding eq by simp
    show "filter (\<lambda>t. priority_key t = k) (tasks (sort_tasks lower (py ''priority'') st)) =
          filter (\<lambda>t. priority_key t = k) (tasks st)" for k
      unfolding eq by (rule sort_key_stable)
    show "priority_key t =
          (if priority t = py ''Low'' then 1 else if priority t = py ''Normal'' then 2
           else if priority t = py ''High'' then 3 else 0)" for t
      by (rule priority_key_values)
  qed
qed

theorem sort_priority_ascending_witness:
  "sort_reverse (sort_tasks ascii_lower (py ''priority'')
      (init_state\<lparr>tasks :=
         [\<lparr>text = py ''a'', due = [], priority = py ''High'', completed = False\<rparr>,
          \<lparr>text = py ''b'', due = [], priority = [], completed = False\<rparr>,
          \<lparr>text = py ''c'', due = [], priority = py ''Low'', completed = False\<rparr>]\<rparr>)) = False \<and>
   sorted (map priority_key (tasks (sort_tasks ascii_lower (py ''priority'')
      (init_state\<lparr>tasks :=
         [\<lparr>text = py ''a'', due = [], priority = py ''High'', completed = False\<rparr>,
          \<lparr>text = py ''b'', due = [], priority = [], completed = False\<rparr>,
          \<lparr>text = py ''c'', due = [], priority = py ''Low'', completed = False\<rparr>]\<rparr>)))) \<and>
   tasks (sort_tasks ascii_lower (py ''priority'')
      (init_state\<lparr>tasks :=
         [\<lparr>text = py ''a'', due = [], priority = py ''High'', completed = False\<rparr>,
          \<lparr>text = py ''b'', due = [], priority = [], completed = False\<rparr>,
          \<lparr>text = py ''c'', due = [], priority = py ''Low'', completed = False\<rparr>]\<rparr>)) =
     [\<lparr>text = py ''b'', due = [], priority = [], completed = False\<rparr>,
      \<lparr>text = py ''c'', due = [], priority = py ''Low'', completed = False\<rparr>,
      \<lparr>text = py ''a'', due = [], priority = py ''High'', completed = False\<rparr>]"
proof -
  let ?S = "init_state\<lparr>tasks :=
         [\<lparr>text = py ''a'', due = [], priority = py ''High'', completed = False\<rparr>,
          \<lparr>text = py ''b'', due = [], priority = [], completed = False\<rparr>,
          \<lparr>text = py ''c'', due = [], priority = py ''Low'', completed = False\<rparr>]\<rparr>"
  have h: "sort_reverse (sort_tasks ascii_lower (py ''priority'') ?S) = False"
    by (simp add: sort_tasks_def init_state_def Let_def)
  have t: "tasks (sort_tasks ascii_lower (py ''priority'') ?S) =
     [\<lparr>text = py ''b'', due = [], priority = [], completed = False\<rparr>,
      \<lparr>text = py ''c'', due = [], priority = py ''Low'', completed = False\<rparr>,
      \<lparr>text = py ''a'', due = [], priority = py ''High'', completed = False\<rparr>]"
    by (simp add: sort_tasks_def init_state_def py_sort_def priority_key_def priority_order_def
      py_def Let_def)
  from sort_priority_ascending [of ascii_lower ?S] h t show ?thesis by blast
qed

section \<open>The direction of a sort\<close>

text \<open>
  C5: sorting with the key of the previous sort negates the descending flag
  \<open>sort_reverse\<close>; sorting with any other key (or for the first time) sets it to false.
  The key is recorded as the new \<open>sort_column\<close>.
\<close>

theorem sort_tasks_direction:
  "(sort_column st = Some key \<longrightarrow>
      sort_reverse (sort_tasks lower key st) = (\<not> sort_reverse st)) \<and>
   (sort_column st \<noteq> Some key \<longrightarrow> sort_reverse (sort_tasks lower key st) = False) \<and>
   sort_column (sort_tasks lower key st) = Some key"
  by (simp add: sort_tasks_def Let_def)

theorem sort_tasks_direction_witness:
  "sort_reverse (sort_tasks ascii_lower (py ''due'')
      (init_state\<lparr>sort_column := Some (py ''due'')\<rparr>)) = True \<and>
   sort_reverse (sort_tasks ascii_lower (py ''text'')
      (init_state\<lparr>sort_column := Some (py ''due''), sort_reverse := True\<rparr>)) = False"
  using sort_tasks_direction [of "init_state\<lparr>sort_column := Some (py ''due'')\<rparr>" "py ''due''" ascii_lower]
    sort_tasks_direction [of "init_state\<lparr>sort_column := Some (py ''due''), sort_reverse := True\<rparr>"
      "py ''text''" ascii_lower]
  by (simp add: init_state_def py_def)

section \<open>Sorting by due date\<close>

text \<open>
  C9: an ascending sort by \<open>due\<close> orders the tasks by the lexicographic order of the raw
  due strings (code point by code point), not by calendar date; it permutes the store.
  For a store of two tasks with the due strings 02-01-2023 and 01-05-2024, in that order,
  the task due 01-05-2024 comes first after the sort.
\<close>

theorem sort_due_lexicographic:
  "sort_reverse (sort_tasks lower (py ''due'') st) = False \<longrightarrow>
     sorted (map due (tasks (sort_tasks lower (py ''due'') st))) \<and>
     mset (tasks (sort_tasks lower (py ''due'') st)) = mset (tasks st) \<and>
     (\<forall>a b. tasks st = [a, b] \<and> due a = py ''02-01-2023'' \<and> due b = py ''01-05-2024'' \<longrightarrow>
        tasks (sort_tasks lower (py ''due'') st) = [b, a])"
proof
  assume asc: "sort_reverse (sort_tasks lower (py ''due'') st) = False"
  have key: "str_key (py ''due'') = due"
    by (rule ext) (simp add: str_key_def py_def)
  have eq: "tasks (sort_tasks lower (py ''due'') st) = sort_key due (tasks st)"
    by (simp add: tasks_sort_tasks asc py_sort_def key) (simp add: py_def)
  have "\<not> py ''02-01-2023'' \<le> py ''01-05-2024''"
    by (simp add: py_def)
  then show "sorted (map due (tasks (sort_tasks lower (py ''due'') st))) \<and>
     mset (tasks (sort_tasks lower (py ''due'') st)) = mset (tasks st) \<and>
     (\<forall>a b. tasks st = [a, b] \<and> due a = py ''02-01-2023'' \<and> due b = py ''01-05-2024'' \<longrightarrow>
        tasks (sort_tasks lower (py ''due'') st) = [b, a])"
    unfolding eq by auto
qed

theorem sort_due_lexicographic_witness:
  "sort_reverse (sort_tasks ascii_lower (py ''due'')
      (init_state\<lparr>tasks :=
         [\<lparr>text = py ''a'', due = py ''02-01-2023'', priority = py ''High'', completed = False\<rparr>,
          \<lparr>text = py ''b'', due = py ''01-05-2024'', priority = py ''Low'', completed = False\<rparr>]\<rparr>)) = False \<and>
   tasks (sort_tasks ascii_lower (py ''due'')
      (init_state\<lparr>tasks :=
         [\<lparr>text = py ''a'', due = py ''02-01-2023'', priority = py ''High'', completed = False\<rparr>,
          \<lparr>text = py ''b'', due = py ''01-05-2024'', priority = py ''Low'', completed = False\<rparr>]\<rparr>)) =
     [\<lparr>text = py ''b'', due = py ''01-05-2024'', priority = py ''Low'', completed = False\<rparr>,
      \<lparr>text = py ''a'', due = py ''02-01-2023'', priority = py ''High'', completed = False\<rparr>]"
proof -
  let ?a = "\<lparr>text = py ''a'', due = py ''02-01-2023'', priority = py ''High'', completed = False\<rparr>"
  let ?b = "\<lparr>text = py ''b'', due = py ''01-05-2024'', priority = py ''Low'', completed = False\<rparr>"
  let ?S = "init_state\<lparr>tasks := [?a, ?b]\<rparr>"
  have h: "sort_reverse (sort_tasks ascii_lower (py ''due'') ?S) = False"
    by (simp add: sort_tasks_def init_state_def Let_def)
  have t: "tasks ?S = [?a, ?b] \<and> due ?a = py ''02-01-2023'' \<and> due ?b = py ''01-05-2024''"
    by simp
  from sort_due_lexicographic [of ascii_lower ?S] h t show ?thesis by blast
qed

section \<open>Adding a task\<close>

text \<open>
  C3: when the entered text is not empty after trimming, \<open>submit\<close> appends exactly one
  task at the end of the store, with the entered text and \<open>completed = False\<close>, so the
  store grows by one; when the entered text consists of whitespace only, the store is
  left as it was.
\<close>

theorem submit_adds_one:
  "(strip task_text \<noteq> [] \<longrightarrow>
      (\<exists>task. submit lower simple task_text month day year prio st =
                 ([destroy], update_task_list lower (st\<lparr>tasks := tasks st @ [task]\<rparr>)) \<and>
              tasks (snd (submit lower simple task_text month day year prio st)) = tasks st @ [task] \<and>
              text task = task_text \<and> completed task = False) \<and>
      length (tasks (snd (submit lower simple task_text month day year prio st))) =
        length (tasks st) + 1) \<and>
   ((\<forall>c\<in>set task_text. isspace c) \<longrightarrow>
      snd (submit lower simple task_text month day year prio st) = st)"
  by (auto simp: submit_def Let_def strip_empty_iff)

theorem submit_adds_one_witness:
  "strip (py ''Buy milk'') \<noteq> [] \<and>
   length (tasks (snd (submit ascii_lower True (py ''Buy milk'') [] [] [] [] init_state))) = 1 \<and>
   list_all isspace (py ''  '') \<and>
   snd (submit ascii_lower True (py ''  '') [] [] [] [] init_state) = init_state"
proof -
  have 1: "strip (py ''Buy milk'') \<noteq> []"
    by (simp add: strip_def py_def isspace_def)
  have 2: "\<forall>c\<in>set (py ''  ''). isspace c"
    by (simp add: py_def isspace_def)
  have 3: "length (tasks init_state) = 0"
    by (simp add: init_state_def)
  from submit_adds_one [of "py ''Buy milk''" ascii_lower True "[]" "[]" "[]" "[]" init_state] 1 3
  have 4: "length (tasks (snd (submit ascii_lower True (py ''Buy milk'') [] [] [] [] init_state))) = 1"
    by simp
  from submit_adds_one [of "py ''  ''" ascii_lower True "[]" "[]" "[]" "[]" init_state] 2
  have 5: "snd (submit ascii_lower True (py ''  '') [] [] [] [] init_state) = init_state"
    by blast
  from 1 2 4 5 show ?thesis by (simp add: list_all_iff)
qed

section \<open>Deleting and toggling by text\<close>

text \<open>
  C4: deleting by a text is meant to remove every task with that text, and toggling by
  a text to flip the first task with that text. The program takes the text from the
  focused row of the tree, and the tree gives it back converted: for a row whose text
  reads as an integer, such as \<open>007\<close>, the key is the integer 7, which is equal to the
  text of no task. On the store of the tasks \<open>007\<close>, \<open>Other\<close>, \<open>007\<close> with the focus on a
  row \<open>007\<close>, \<open>delete_selected_task\<close> removes nothing and \<open>toggle_selected_completion\<close>
  flips nothing, although two tasks have the text of the row. For a text that comes
  back as it is, such as \<open>Dup\<close>, the same operations remove both tasks \<open>Dup\<close> and flip
  the first one only.
\<close>

theorem delete_selected_task_integer_text:
  "convert_stringval (py ''007'') = PyInt 7 \<and>
   tasks (delete_selected_task ascii_lower convert_stringval (Some (py ''007''))
      (init_state\<lparr>tasks :=
         [\<lparr>text = py ''007'', due = [], priority = [], completed = False\<rparr>,
          \<lparr>text = py ''Other'', due = [], priority = [], completed = False\<rparr>,
          \<lparr>text = py ''007'', due = [], priority = [], completed = False\<rparr>]\<rparr>)) =
     [\<lparr>text = py ''007'', due = [], priority = [], completed = False\<rparr>,
      \<lparr>text = py ''Other'', due = [], priority = [], completed = False\<rparr>,
      \<lparr>text = py ''007'', due = [], priority = [], completed = False\<rparr>] \<and>
   tasks (toggle_selected_completion ascii_lower convert_stringval (Some (py ''007''))
      (init_state\<lparr>tasks :=
         [\<lparr>text = py ''007'', due = [], priority = [], completed = False\<rparr>,
          \<lparr>text = py ''Other'', due = [], priority = [], completed = False\<rparr>,
          \<lparr>text = py ''007'', due = [], priority = [], completed = False\<rparr>]\<rparr>)) =
     [\<lparr>text = py ''007'', due = [], priority = [], completed = False\<rparr>,
      \<lparr>text = py ''Other'', due = [], priority = [], completed = False\<rparr>,
      \<lparr>text = py ''007'', due = [], priority = [], completed = False\<rparr>] \<and>
   tasks (delete_selected_task ascii_lower convert_stringval (Some (py ''Dup''))
      (init_state\<lparr>tasks :=
         [\<lparr>text = py ''Dup'', due = [], priority = [], completed = False\<rparr>,
          \<lparr>text = py ''Other'', due = [], priority = [], completed = False\<rparr>,
          \<lparr>text = py ''Dup'', due = [], priority = [], completed = False\<rparr>]\<rparr>)) =
     [\<lparr>text = py ''Other'', due = [], priority = [], completed = False\<rparr>] \<and>
   tasks (toggle_selected_completion ascii_lower convert_stringval (Some (py ''Dup''))
      (init_state\<lparr>tasks :=
         [\<lparr>text = py ''Dup'', due = [], priority = [], completed = False\<rparr>,
          \<lparr>text = py ''Other'', due = [], priority = [], completed = False\<rparr>,
          \<lparr>text = py ''Dup'', due = [], priority = [], completed = False\<rparr>]\<rparr>)) =
     [\<lparr>text = py ''Dup'', due = [], priority = [], completed = True\<rparr>,
      \<lparr>text = py ''Other'', due = [], priority = [], completed = False\<rparr>,
      \<lparr>text = py ''Dup'', due = [], priority = [], completed = False\<rparr>]"
proof -
  have ne: "py ''Other'' \<noteq> py ''Dup''"
    by (simp add: py_def)
  show ?thesis
    by (simp add: tasks_delete_selected_task tasks_toggle_selected_completion
        convert_stringval_007 convert_stringval_plain ne)
qed

section \<open>Filtering\<close>

text \<open>
  C6: for every state and every content of the search field, the tasks shown under the
  filter \<open>active\<close> and those shown under \<open>completed\<close>, taken as positions in the store, are
  disjoint, and together they are the tasks shown under \<open>all\<close>. Setting a filter leaves
  the store as it is: it only rebuilds the rows of the tree, one per shown task.
\<close>

theorem filter_partition:
  "set (shown_positions lower (set_filter lower (py ''active'') st)) \<inter>
     set (shown_positions lower (set_filter lower (py ''completed'') st)) = {} \<and>
   set (shown_positions lower (set_filter lower (py ''active'') st)) \<union>
     set (shown_positions lower (set_filter lower (py ''completed'') st)) =
     set (shown_positions lower (set_filter lower (py ''all'') st)) \<and>
   (\<forall>f. tasks (set_filter lower f st) = tasks st \<and>
        tree (set_filter lower f st) =
          map (\<lambda>i. row_of (tasks st ! i)) (shown_positions lower (set_filter lower f st)))"
proof (intro conjI allI)
  have ne: "py ''active'' \<noteq> py ''completed''" "py ''all'' \<noteq> py ''active''"
    "py ''all'' \<noteq> py ''completed''"
    by (simp_all add: py_def)
  have pos: "shown_positions lower (set_filter lower f st) =
      filter (\<lambda>i. \<not> skipped lower f (strip (lower (search_var st))) (tasks st ! i))
        [0..<length (tasks st)]" for f
    by (simp add: shown_positions_def set_filter_def update_task_list_def Let_def)
  show "set (shown_positions lower (set_filter lower (py ''active'') st)) \<inter>
     set (shown_positions lower (set_filter lower (py ''completed'') st)) = {}"
    using ne by (auto simp: pos skipped_def)
  show "set (shown_positions lower (set_filter lower (py ''active'') st)) \<union>
     set (shown_positions lower (set_filter lower (py ''completed'') st)) =
     set (shown_positions lower (set_filter lower (py ''all'') st))"
    using ne by (auto simp: pos skipped_def)
  show "tasks (set_filter lower f st) = tasks st" for f
    by (simp add: set_filter_def)
  have "tree (set_filter lower f st) = map row_of (shown_tasks lower (set_filter lower f st))" for f
    by (simp add: set_filter_def update_task_list_def shown_tasks_def Let_def)
  then show "tree (set_filter lower f st) =
          map (\<lambda>i. row_of (tasks st ! i)) (shown_positions lower (set_filter lower f st))" for f
    by (simp add: shown_tasks_positions set_filter_def comp_def)
qed

theorem filter_partition_witness:
  "shown_positions ascii_lower (set_filter ascii_lower (py ''active'')
      (init_state\<lparr>tasks :=
         [\<lparr>text = py ''Buy milk'', due = [], priority = [], completed = True\<rparr>,
          \<lparr>text = py ''Call Bob'', due = [], priority = [], completed = False\<rparr>,
          \<lparr>text = py ''Walk'', due = [], priority = [], completed = False\<rparr>],
        search_var := py '' B ''\<rparr>)) = [1] \<and>
   shown_positions ascii_lower (set_filter ascii_lower (py ''completed'')
      (init_state\<lparr>tasks :=
         [\<lparr>text = py ''Buy milk'', due = [], priority = [], completed = True\<rparr>,
          \<lparr>text = py ''Call Bob'', due = [], priority = [], completed = False\<rparr>,
          \<lparr>text = py ''Walk'', due = [], priority = [], completed = False\<rparr>],
        search_var := py '' B ''\<rparr>)) = [0] \<and>
   set (shown_positions ascii_lower (set_filter ascii_lower (py ''all'')
      (init_state\<lparr>tasks :=
         [\<lparr>text = py ''Buy milk'', due = [], priority = [], completed = True\<rparr>,
          \<lparr>text = py ''Call Bob'', due = [], priority = [], completed = False\<rparr>,
          \<lparr>text = py ''Walk'', due = [], priority = [], completed = False\<rparr>],
        search_var := py '' B ''\<rparr>))) = {0, 1}"
proof -
  let ?S = "init_state\<lparr>tasks :=
         [\<lparr>text = py ''Buy milk'', due = [], priority = [], completed = True\<rparr>,
          \<lparr>text = py ''Call Bob'', due = [], priority = [], completed = False\<rparr>,
          \<lparr>text = py ''Walk'', due = [], priority = [], completed = False\<rparr>],
        search_var := py '' B ''\<rparr>"
  have a: "shown_positions ascii_lower (set_filter ascii_lower (py ''active'') ?S) = [1]"
    by (simp add: shown_positions_def set_filter_def update_task_list_def init_state_def
        skipped_def ascii_lower_def strip_def isspace_def py_def sublist_code Let_def)
  have c: "shown_positions ascii_lower (set_filter ascii_lower (py ''completed'') ?S) = [0]"
    by (simp add: shown_positions_def set_filter_def update_task_list_def init_state_def
        skipped_def ascii_lower_def strip_def isspace_def py_def sublist_code Let_def)
  from filter_partition [of ascii_lower ?S] a c show ?thesis
    by auto
qed

section \<open>Empty text\<close>

text \<open>
  C2, as the specification words it: on add and on edit alike, empty text makes the
  program show a warning. On edit the code shows nothing: \<open>save_edit\<close> with empty text
  does nothing at all.
\<close>

theorem edit_empty_text_warning_counterexample:
  "\<not> list_ex is_warning
       (fst (edit_task ascii_lower convert_stringval (Some (py ''Buy milk'')) [] [] [] [] []
          (init_state\<lparr>tasks :=
             [\<lparr>text = py ''Buy milk'', due = [], priority = [], completed = False\<rparr>]\<rparr>)))"
  by (simp add: edit_task_def save_edit_def init_state_def convert_stringval_plain)

text \<open>
  C2, amended: on add, text that is empty after trimming makes \<open>submit\<close> show the warning
  dialog and leave the store unchanged; on edit, empty text makes \<open>save_edit\<close> do nothing:
  no dialog is shown, the edit window stays open and the store is unchanged.
\<close>

theorem empty_text_rejected:
  "(strip task_text = [] \<longrightarrow>
      submit lower simple task_text month day year prio st =
        ([showwarning (py ''Input Error'') (py ''Task cannot be empty.'')], st)) \<and>
   save_edit lower old_text detailed [] month day year prio st = ([], st) \<and>
   edit_task lower item_value selected [] month day year prio st = ([], st)"
  by (simp add: submit_def save_edit_def edit_task_def Let_def split: option.splits)

theorem empty_text_rejected_witness:
  "strip [] = [] \<and>
   submit ascii_lower True [] [] [] [] []
     (init_state\<lparr>tasks :=
        [\<lparr>text = py ''Buy milk'', due = [], priority = [], completed = False\<rparr>]\<rparr>) =
     ([showwarning (py ''Input Error'') (py ''Task cannot be empty.'')],
      init_state\<lparr>tasks :=
        [\<lparr>text = py ''Buy milk'', due = [], priority = [], completed = False\<rparr>]\<rparr>) \<and>
   edit_task ascii_lower convert_stringval (Some (py ''Buy milk'')) [] [] [] [] []
     (init_state\<lparr>tasks :=
        [\<lparr>text = py ''Buy milk'', due = [], priority = [], completed = False\<rparr>]\<rparr>) =
     ([], init_state\<lparr>tasks :=
        [\<lparr>text = py ''Buy milk'', due = [], priority = [], completed = False\<rparr>]\<rparr>)"
proof -
  have e: "strip [] = []"
    by (simp add: strip_def)
  from empty_text_rejected [of "[]" ascii_lower True "[]" "[]" "[]" "[]"
      "init_state\<lparr>tasks :=
        [\<lparr>text = py ''Buy milk'', due = [], priority = [], completed = False\<rparr>]\<rparr>"
      "PyStr (py ''Buy milk'')" False convert_stringval "Some (py ''Buy milk'')"] e
  show ?thesis by blast
qed

section \<open>Editing with whitespace-only text\<close>

lemma save_edit_first_match:
  assumes "new_text \<noteq> []" and "tasks st = ps @ t # ss" and "\<forall>p\<in>set ps. text p \<noteq> k"
    and "text t = k"
  shows "\<exists>t'. save_edit lower (PyStr k) detailed new_text month day year prio st =
            ([destroy], update_task_list lower (st\<lparr>tasks := ps @ t' # ss\<rparr>)) \<and>
          text t' = new_text \<and> completed t' = completed t"
proof -
  let ?t' = "if detailed
      then t\<lparr>text := new_text, due := month @ py ''-'' @ day @ py ''-'' @ year, priority := prio\<rparr>
      else t\<lparr>text := new_text\<rparr>"
  have "save_edit_loop (PyStr k) detailed new_text month day year prio (tasks st) =
      ps @ ?t' # ss"
    using assms by (simp add: save_edit_loop_first)
  then have "save_edit lower (PyStr k) detailed new_text month day year prio st =
      ([destroy], update_task_list lower (st\<lparr>tasks := ps @ ?t' # ss\<rparr>))"
    using assms(1) by (simp add: save_edit_def)
  moreover have "text ?t' = new_text \<and> completed ?t' = completed t"
    by simp
  ultimately show ?thesis by blast
qed

lemma edit_task_first_match:
  assumes "tasks st = ps @ t # ss" and "\<forall>p\<in>set ps. text p \<noteq> k" and "text t = k"
    and "item_value k = PyStr k"
  shows "edit_task lower item_value (Some k) new_text month day year prio st =
      save_edit lower (PyStr k) (is_detailed t) new_text month day year prio st"
proof -
  have "find (\<lambda>t. PyStr (text t) = PyStr k) (tasks st) = Some t"
    using assms by (simp add: find_first)
  then show ?thesis
    using assms(4) by (simp add: edit_task_def Let_def)
qed

text \<open>
  C10: \<open>save_edit\<close> tests the new text for emptiness without trimming it. The empty
  string is rejected: nothing happens. For every non-empty new text, and so for every
  non-empty text of whitespace only, \<open>save_edit\<close> on a store that holds a task with the
  old text closes the window and gives the first such task the new text, so the store
  then holds a task whose text is whitespace only; \<open>submit\<close>, which trims before
  testing, answers the same text with its warning and leaves the store unchanged.
  \<open>edit_task\<close> opens the window of this \<open>save_edit\<close> for every row whose text the tree
  gives back as it is.
\<close>

theorem edit_accepts_whitespace_only:
  "save_edit lower old_text detailed [] month day year prio st = ([], st) \<and>
   (new_text \<noteq> [] \<and> tasks st = ps @ t # ss \<and> (\<forall>p\<in>set ps. text p \<noteq> k) \<and> text t = k \<longrightarrow>
      (\<exists>t'. save_edit lower (PyStr k) detailed new_text month day year prio st =
               ([destroy], update_task_list lower (st\<lparr>tasks := ps @ t' # ss\<rparr>)) \<and>
            text t' = new_text \<and> completed t' = completed t) \<and>
      (item_value k = PyStr k \<longrightarrow>
         edit_task lower item_value (Some k) new_text month day year prio st =
           save_edit lower (PyStr k) (is_detailed t) new_text month day year prio st) \<and>
      ((\<forall>c\<in>set new_text. isspace c) \<longrightarrow>
         strip new_text = [] \<and>
         submit lower simple new_text month day year prio st =
           ([showwarning (py ''Input Error'') (py ''Task cannot be empty.'')], st)))"
proof (intro conjI impI)
  show "save_edit lower old_text detailed [] month day year prio st = ([], st)"
    by (simp add: save_edit_def)
next
  assume a: "new_text \<noteq> [] \<and> tasks st = ps @ t # ss \<and> (\<forall>p\<in>set ps. text p \<noteq> k) \<and> text t = k"
  then have 1: "new_text \<noteq> []" and 2: "tasks st = ps @ t # ss"
    and 3: "\<forall>p\<in>set ps. text p \<noteq> k" and 4: "text t = k"
    by simp_all
  from 1 2 3 4 show "\<exists>t'. save_edit lower (PyStr k) detailed new_text month day year prio st =
               ([destroy], update_task_list lower (st\<lparr>tasks := ps @ t' # ss\<rparr>)) \<and>
            text t' = new_text \<and> completed t' = completed t"
    by (rule save_edit_first_match)
next
  assume a: "new_text \<noteq> [] \<and> tasks st = ps @ t # ss \<and> (\<forall>p\<in>set ps. text p \<noteq> k) \<and> text t = k"
    and b: "item_value k = PyStr k"
  from a have 2: "tasks st = ps @ t # ss" and 3: "\<forall>p\<in>set ps. text p \<noteq> k" and 4: "text t = k"
    by simp_all
  from 2 3 4 b show "edit_task lower item_value (Some k) new_text month day year prio st =
           save_edit lower (PyStr k) (is_detailed t) new_text month day year prio st"
    by (rule edit_task_first_match)
next
  assume w: "\<forall>c\<in>set new_text. isspace c"
  then show "strip new_text = []"
    by (simp add: strip_empty_iff)
  then show "submit lower simple new_text month day year prio st =
           ([showwarning (py ''Input Error'') (py ''Task cannot be empty.'')], st)"
    by (simp add: submit_def)
qed

theorem edit_accepts_whitespace_only_witness:
  "list_all isspace (py '' '') \<and>
   edit_task ascii_lower convert_stringval (Some (py ''Buy milk'')) (py '' '') [] [] [] []
     (init_state\<lparr>tasks :=
        [\<lparr>text = py ''Buy milk'', due = [], priority = [], completed = False\<rparr>]\<rparr>) =
   save_edit ascii_lower (PyStr (py ''Buy milk'')) False (py '' '') [] [] [] []
     (init_state\<lparr>tasks :=
        [\<lparr>text = py ''Buy milk'', due = [], priority = [], completed = False\<rparr>]\<rparr>) \<and>
   fst (save_edit ascii_lower (PyStr (py ''Buy milk'')) False (py '' '') [] [] [] []
     (init_state\<lparr>tasks :=
        [\<lparr>text = py ''Buy milk'', due = [], priority = [], completed = False\<rparr>]\<rparr>)) = [destroy] \<and>
   tasks (snd (save_edit ascii_lower (PyStr (py ''Buy milk'')) False (py '' '') [] [] [] []
     (init_state\<lparr>tasks :=
        [\<lparr>text = py ''Buy milk'', due = [], priority = [], completed = False\<rparr>]\<rparr>))) =
     [\<lparr>text = py '' '', due = [], priority = [], completed = False\<rparr>] \<and>
   submit ascii_lower True (py '' '') [] [] [] []
     (init_state\<lparr>tasks :=
        [\<lparr>text = py ''Buy milk'', due = [], priority = [], completed = False\<rparr>]\<rparr>) =
     ([showwarning (py ''Input Error'') (py ''Task cannot be empty.'')],
      init_state\<lparr>tasks :=
        [\<lparr>text = py ''Buy milk'', due = [], priority = [], completed = False\<rparr>]\<rparr>)"
proof -
  let ?t = "\<lparr>text = py ''Buy milk'', due = [], priority = [], completed = False\<rparr>"
  let ?S = "init_state\<lparr>tasks := [?t]\<rparr>"
  have h: "py '' '' \<noteq> [] \<and> tasks ?S = [] @ ?t # [] \<and>
      (\<forall>p\<in>set []. text p \<noteq> py ''Buy milk'') \<and> text ?t = py ''Buy milk''"
    by (simp add: py_def)
  have w: "\<forall>c\<in>set (py '' ''). isspace c"
    by (simp add: py_def isspace_def)
  have d: "is_detailed ?t = False"
    by (simp add: is_detailed_def)
  note inst = edit_accepts_whitespace_only [of ascii_lower _ False "[]" "[]" "[]" "[]" ?S
      "py '' ''" "[]" ?t "[]" "py ''Buy milk''" convert_stringval True]
  from inst h obtain t' where
    s: "save_edit ascii_lower (PyStr (py ''Buy milk'')) False (py '' '') [] [] [] [] ?S =
          ([destroy], update_task_list ascii_lower (?S\<lparr>tasks := [] @ t' # []\<rparr>))"
    and t': "text t' = py '' ''" "completed t' = completed ?t"
    by blast
  have "save_edit ascii_lower (PyStr (py ''Buy milk'')) False (py '' '') [] [] [] [] ?S =
      ([destroy], update_task_list ascii_lower
         (?S\<lparr>tasks := [\<lparr>text = py '' '', due = [], priority = [], completed = False\<rparr>]\<rparr>))"
    by (simp add: save_edit_def py_def)
  then have 1: "fst (save_edit ascii_lower (PyStr (py ''Buy milk'')) False (py '' '') [] [] [] [] ?S) =
      [destroy]"
    and 2: "tasks (snd (save_edit ascii_lower (PyStr (py ''Buy milk'')) False (py '' '') [] [] [] []
      ?S)) = [\<lparr>text = py '' '', due = [], priority = [], completed = False\<rparr>]"
    by simp_all
  from inst h convert_stringval_plain(1) d
  have 3: "edit_task ascii_lower convert_stringval (Some (py ''Buy milk'')) (py '' '') [] [] [] [] ?S =
      save_edit ascii_lower (PyStr (py ''Buy milk'')) False (py '' '') [] [] [] [] ?S"
    by simp
  from inst h w
  have 4: "submit ascii_lower True (py '' '') [] [] [] [] ?S =
      ([showwarning (py ''Input Error'') (py ''Task cannot be empty.'')], ?S)"
    by blast
  from w 1 2 3 4 show ?thesis by (simp add: list_all_iff)
qed

section \<open>The JSON document\<close>

subsection \<open>Unicode escapes\<close>




lemma length_hex4 [simp]: "length (hex4 n) = 4"
  by (simp add: hex4_def)

lemma drop_hex4 [simp]: "drop 4 (hex4 n @ rest) = rest"
  by (simp add: hex4_def)

subsection \<open>Strings are read back\<close>

text \<open>
  \<open>scanstring\<close> undoes \<open>escape_char\<close> code point by code point, unless the code point is
  a high surrogate and the input that follows is the escape of a low surrogate. Hence
  the encoding of a string without such a pair is decoded to the string itself.
\<close>

lemma scanstring_plain:
  "c \<noteq> 0x22 \<Longrightarrow> c \<noteq> 0x5C \<Longrightarrow> 0x20 \<le> c \<Longrightarrow> scanstring (c # rest) = append_char c (scanstring rest)"
  by simp

lemma scanstring_short:
  "esc \<noteq> 0x75 \<Longrightarrow> BACKSLASH esc = Some c \<Longrightarrow>
   scanstring (0x5C # esc # rest) = append_char c (scanstring rest)"
  by simp














subsection \<open>Task dictionaries are read back\<close>

text \<open>
  \<open>scan_once\<close> on the text that \<open>iterencode_dict\<close> writes for a task: four rounds of the
  loop of \<open>JSONObject\<close>, given what each string field is decoded to.
\<close>

lemma skip_ws_simps [simp]:
  "skip_ws [] = []"
  "skip_ws (0x20 # s) = skip_ws s"
  "\<not> is_ws c \<Longrightarrow> skip_ws (c # s) = c # s"
  by (simp_all add: skip_ws_def is_ws_def)

lemma not_ws [simp]:
  "\<not> is_ws 0x22" "\<not> is_ws 0x2C" "\<not> is_ws 0x3A" "\<not> is_ws 0x5B" "\<not> is_ws 0x5D"
  "\<not> is_ws 0x7B" "\<not> is_ws 0x7D" "\<not> is_ws 0x74" "\<not> is_ws 0x66"
  by (simp_all add: is_ws_def)









subsection \<open>The store is read back\<close>

text \<open>
  \<open>json_loads\<close> on the text that \<open>iterencode_list\<close> writes for the store, with the
  budget that \<open>json_loads\<close> hands to \<open>scan_once\<close>.
\<close>

lemma iterencode_dict_starts: "\<exists>s. iterencode_dict t = 0x7B # s"
  by (simp add: iterencode_dict_def py_def)

lemma skip_ws_dict [simp]: "skip_ws (iterencode_dict t @ rest) = iterencode_dict t @ rest"
  using iterencode_dict_starts [of t] by auto









lemma task_of_json_dict [simp]: "task_of_json (dict_of_task t) = Some t"
  by (simp add: dict_of_task_def)





subsection \<open>The decoder consumes its input and never exhausts its budget\<close>

text \<open>
  Every successful scan leaves less input than it was given. With a budget of twice the
  length of the input plus one, the scanner therefore never reaches budget zero: the
  only error of \<open>json_loads\<close> is \<open>JSONDecodeError\<close>.
\<close>

lemma length_skip_ws: "length (skip_ws s) \<le> length s"
  by (simp add: skip_ws_def length_dropWhile_le)

lemma append_char_Inr:
  "append_char c r = Inr (v, rest) \<Longrightarrow> \<exists>v'. r = Inr (v', rest)"
  by (auto simp: append_char_def split: sum.splits)

lemma append_char_Inl: "append_char c r = Inl e \<Longrightarrow> r = Inl e"
  by (auto simp: append_char_def split: sum.splits)

lemma scanstring_Inr_cases:
  assumes "scanstring (c # s0) = Inr (v, r)"
  shows "r = s0 \<or> (\<exists>s' v'. scanstring s' = Inr (v', r) \<and> length s' \<le> length s0)"
proof -
  have le: "length (drop n s1) \<le> length (e # s1)" for n e and s1 :: pystr
    by simp
  show ?thesis
    using assms le
    by (auto split: if_splits list.splits option.splits dest!: append_char_Inr)
qed

lemma scanstring_shorter: "scanstring s = Inr (v, r) \<Longrightarrow> length r < length s"
proof (induction "length s" arbitrary: s v rule: less_induct)
  case less
  show ?case
  proof (cases s)
    case Nil
    with less.prems show ?thesis by simp
  next
    case (Cons c s0)
    with less.prems consider "r = s0"
      | s' v' where "scanstring s' = Inr (v', r)" "length s' \<le> length s0"
      using scanstring_Inr_cases by blast
    then show ?thesis
    proof cases
      case 1
      with Cons show ?thesis by simp
    next
      case 2
      with Cons have "length s' < length s" by simp
      from less.hyps [OF this 2(1)] 2(2) Cons show ?thesis by simp
    qed
  qed
qed

lemma scanstring_error: "scanstring s = Inl e \<Longrightarrow> e = JSONDecodeError"
  by (induction s rule: scanstring.induct)
    (auto split: if_splits list.splits option.splits dest!: append_char_Inl)

lemma skip_ws_Cons_shorter: "skip_ws s = c # s' \<Longrightarrow> length s' < length s"
  using length_skip_ws [of s] by simp

lemma match_integer_shorter: "match_integer s = Some (i, r) \<Longrightarrow> length r < length s"
  by (auto simp: match_integer_def Let_def length_dropWhile_le less_Suc_eq_le le_SucI
      split: list.splits if_splits)

lemma match_frac_shorter: "length (snd (match_frac s)) \<le> length s"
  by (auto simp: match_frac_def length_dropWhile_le le_SucI split: list.splits)

lemma match_exp_shorter: "length (snd (match_exp s)) \<le> length s"
  by (auto simp: match_exp_def Let_def length_dropWhile_le le_SucI split: list.splits)

lemma match_number_shorter:
  assumes "match_number s = Some (l, r)"
  shows "length r < length s"
proof -
  from assms obtain i s1 where i: "match_integer s = Some (i, s1)"
    and r: "r = snd (match_exp (snd (match_frac s1)))"
    by (auto simp: match_number_def Let_def split: option.splits prod.splits)
  have "length r \<le> length s1"
    unfolding r using match_exp_shorter [of "snd (match_frac s1)"] match_frac_shorter [of s1]
    by simp
  with match_integer_shorter [OF i] show ?thesis by simp
qed

lemma scan_once_Inr_cases:
  assumes "scan_once (Suc n) (c # s) = Inr (v, r)"
  shows "length r \<le> length s \<or>
         (\<exists>q rest. skip_ws s = q # rest \<and>
            (JSONObject_loop n [] rest = Inr (v, r) \<or> JSONArray_loop n [] (q # rest) = Inr (v, r)))"
proof -
  have str: "length r' \<le> length s" if "scanstring s = Inr (v', r')" for v' r'
    using scanstring_shorter [OF that] by simp
  have num: "length r' \<le> length s" if "match_number (c # s) = Some (l, r')" for l r'
    using match_number_shorter [OF that] by simp
  have ws: "length rest \<le> length s" if "skip_ws s = q # rest" for q rest
    using skip_ws_Cons_shorter [OF that] by simp
  show ?thesis
    using assms
    by (auto split: if_splits sum.splits list.splits option.splits prod.splits
        dest: str num ws)
qed

lemma JSONObject_loop_Inr_cases:
  assumes "JSONObject_loop (Suc n) pairs s = Inr (v, r)"
  shows "\<exists>key s1 c s2 value s3 nextchar s4.
           scanstring s = Inr (key, s1) \<and> skip_ws s1 = c # s2 \<and>
           scan_once n (skip_ws s2) = Inr (value, s3) \<and> skip_ws s3 = nextchar # s4 \<and>
           (r = s4 \<or>
            (\<exists>q s5 pairs'. skip_ws s4 = q # s5 \<and> JSONObject_loop n pairs' s5 = Inr (v, r)))"
  using assms
  by (auto split: if_splits sum.splits list.splits prod.splits)

lemma JSONArray_loop_Inr_cases:
  assumes "JSONArray_loop (Suc n) vals s = Inr (v, r)"
  shows "\<exists>value s1 nextchar s2.
           scan_once n s = Inr (value, s1) \<and> skip_ws s1 = nextchar # s2 \<and>
           (r = s2 \<or> (\<exists>vals'. JSONArray_loop n vals' (skip_ws s2) = Inr (v, r)))"
  using assms
  by (auto split: if_splits sum.splits list.splits prod.splits)

lemma scan_shorter:
  "(\<forall>s v r. scan_once n s = Inr (v, r) \<longrightarrow> length r < length s) \<and>
   (\<forall>pairs s v r. JSONObject_loop n pairs s = Inr (v, r) \<longrightarrow> length r < length s) \<and>
   (\<forall>vals s v r. JSONArray_loop n vals s = Inr (v, r) \<longrightarrow> length r < length s)"
proof (induction n)
  case 0
  show ?case by simp
next
  case (Suc n)
  note IH = this
  have IH1: "length r < length s" if "scan_once n s = Inr (v, r)" for s v r
    using IH that by blast
  have IH2: "length r < length s" if "JSONObject_loop n pairs s = Inr (v, r)" for pairs s v r
    using IH that by blast
  have IH3: "length r < length s" if "JSONArray_loop n vals s = Inr (v, r)" for vals s v r
    using IH that by blast
  have 1: "length r < length s" if a: "scan_once (Suc n) s = Inr (v, r)" for s v r
  proof (cases s)
    case Nil
    with a show ?thesis by simp
  next
    case (Cons c s0)
    from a [unfolded Cons] consider "length r \<le> length s0"
      | q rest where "skip_ws s0 = q # rest" "JSONObject_loop n [] rest = Inr (v, r)"
      | q rest where "skip_ws s0 = q # rest" "JSONArray_loop n [] (q # rest) = Inr (v, r)"
      using scan_once_Inr_cases by blast
    then show ?thesis
    proof cases
      case 1
      with Cons show ?thesis by simp
    next
      case 2
      from IH2 [OF 2(2)] skip_ws_Cons_shorter [OF 2(1)] Cons show ?thesis by simp
    next
      case 3
      from IH3 [OF 3(2)] length_skip_ws [of s0] 3(1) Cons show ?thesis by simp
    qed
  qed
  have 2: "length r < length s" if a: "JSONObject_loop (Suc n) pairs s = Inr (v, r)"
    for pairs s v r
  proof -
    from JSONObject_loop_Inr_cases [OF a] obtain key s1 c s2 "value" s3 nextchar s4 where
      k: "scanstring s = Inr (key, s1)" and c: "skip_ws s1 = c # s2"
      and v: "scan_once n (skip_ws s2) = Inr (value, s3)" and n: "skip_ws s3 = nextchar # s4"
      and r: "r = s4 \<or>
        (\<exists>q s5 pairs'. skip_ws s4 = q # s5 \<and> JSONObject_loop n pairs' s5 = Inr (v, r))"
      by blast
    have "length s4 < length s"
      using scanstring_shorter [OF k] skip_ws_Cons_shorter [OF c] IH1 [OF v]
        length_skip_ws [of s2] skip_ws_Cons_shorter [OF n]
      by linarith
    moreover have "length r \<le> length s4"
      using r
    proof
      assume "r = s4"
      then show ?thesis by simp
    next
      assume "\<exists>q s5 pairs'. skip_ws s4 = q # s5 \<and> JSONObject_loop n pairs' s5 = Inr (v, r)"
      then obtain q s5 pairs' where "skip_ws s4 = q # s5"
        "JSONObject_loop n pairs' s5 = Inr (v, r)"
        by blast
      with IH2 [of pairs' s5 v r] skip_ws_Cons_shorter [of s4 q s5] show ?thesis by simp
    qed
    ultimately show ?thesis by simp
  qed
  have 3: "length r < length s" if a: "JSONArray_loop (Suc n) vals s = Inr (v, r)"
    for vals s v r
  proof -
    from JSONArray_loop_Inr_cases [OF a] obtain "value" s1 nextchar s2 where
      v: "scan_once n s = Inr (value, s1)" and n: "skip_ws s1 = nextchar # s2"
      and r: "r = s2 \<or> (\<exists>vals'. JSONArray_loop n vals' (skip_ws s2) = Inr (v, r))"
      by blast
    have "length s2 < length s"
      using IH1 [OF v] skip_ws_Cons_shorter [OF n] by linarith
    moreover have "length r \<le> length s2"
      using r
    proof
      assume "r = s2"
      then show ?thesis by simp
    next
      assume "\<exists>vals'. JSONArray_loop n vals' (skip_ws s2) = Inr (v, r)"
      then obtain vals' where "JSONArray_loop n vals' (skip_ws s2) = Inr (v, r)"
        by blast
      with IH3 [of vals' "skip_ws s2" v r] length_skip_ws [of s2] show ?thesis by simp
    qed
    ultimately show ?thesis by simp
  qed
  from 1 2 3 show ?case by blast
qed

lemma scan_once_Inl_cases:
  assumes "scan_once (Suc n) (c # s) = Inl e"
  shows "e = JSONDecodeError \<or>
         (\<exists>q rest. skip_ws s = q # rest \<and>
            (JSONObject_loop n [] rest = Inl e \<or> JSONArray_loop n [] (q # rest) = Inl e))"
  using assms
  by (auto split: if_splits sum.splits list.splits option.splits prod.splits
      dest: scanstring_error)

lemma JSONObject_loop_Inl_cases:
  assumes "JSONObject_loop (Suc n) pairs s = Inl e"
  shows "e = JSONDecodeError \<or>
         (\<exists>key s1 c s2. scanstring s = Inr (key, s1) \<and> skip_ws s1 = c # s2 \<and>
            (scan_once n (skip_ws s2) = Inl e \<or>
             (\<exists>value s3 nextchar s4 q s5 pairs'.
                scan_once n (skip_ws s2) = Inr (value, s3) \<and> skip_ws s3 = nextchar # s4 \<and>
                skip_ws s4 = q # s5 \<and> JSONObject_loop n pairs' s5 = Inl e)))"
  using assms
  by (auto split: if_splits sum.splits list.splits prod.splits dest: scanstring_error)

lemma JSONArray_loop_Inl_cases:
  assumes "JSONArray_loop (Suc n) vals s = Inl e"
  shows "e = JSONDecodeError \<or> scan_once n s = Inl e \<or>
         (\<exists>value s1 nextchar s2 vals'.
            scan_once n s = Inr (value, s1) \<and> skip_ws s1 = nextchar # s2 \<and>
            JSONArray_loop n vals' (skip_ws s2) = Inl e)"
  using assms
  by (auto split: if_splits sum.splits list.splits prod.splits)

lemma scan_fuel:
  "(\<forall>s e. 2 * length s + 1 \<le> n \<longrightarrow> scan_once n s = Inl e \<longrightarrow> e = JSONDecodeError) \<and>
   (\<forall>pairs s e. 2 * length s + 2 \<le> n \<longrightarrow> JSONObject_loop n pairs s = Inl e \<longrightarrow>
      e = JSONDecodeError) \<and>
   (\<forall>vals s e. 2 * length s + 2 \<le> n \<longrightarrow> JSONArray_loop n vals s = Inl e \<longrightarrow>
      e = JSONDecodeError)"
proof (induction n)
  case 0
  show ?case by simp
next
  case (Suc n)
  note IH = this
  have IH1: "e = JSONDecodeError" if "scan_once n s = Inl e" "2 * length s + 1 \<le> n" for s e
    using IH that by blast
  have IH2: "e = JSONDecodeError" if "JSONObject_loop n pairs s = Inl e" "2 * length s + 2 \<le> n"
    for pairs s e
    using IH that by blast
  have IH3: "e = JSONDecodeError" if "JSONArray_loop n vals s = Inl e" "2 * length s + 2 \<le> n"
    for vals s e
    using IH that by blast
  note shorter = scan_shorter [of n, THEN conjunct1, rule_format]
  have 1: "e = JSONDecodeError"
    if a: "scan_once (Suc n) s = Inl e" and b: "2 * length s + 1 \<le> Suc n" for s e
  proof (cases s)
    case Nil
    with a show ?thesis by simp
  next
    case (Cons c s0)
    from a [unfolded Cons] consider "e = JSONDecodeError"
      | q rest where "skip_ws s0 = q # rest" "JSONObject_loop n [] rest = Inl e"
      | q rest where "skip_ws s0 = q # rest" "JSONArray_loop n [] (q # rest) = Inl e"
      using scan_once_Inl_cases by blast
    then show ?thesis
    proof cases
      case 1
      then show ?thesis .
    next
      case 2
      have "2 * length rest + 2 \<le> n"
        using skip_ws_Cons_shorter [OF 2(1)] b Cons by simp
      with 2(2) show ?thesis by (rule IH2)
    next
      case 3
      have "2 * length (q # rest) + 2 \<le> n"
        using length_skip_ws [of s0] 3(1) b Cons by simp
      with 3(2) show ?thesis by (rule IH3)
    qed
  qed
  have 2: "e = JSONDecodeError"
    if a: "JSONObject_loop (Suc n) pairs s = Inl e" and b: "2 * length s + 2 \<le> Suc n"
    for pairs s e
  proof -
    from JSONObject_loop_Inl_cases [OF a] consider "e = JSONDecodeError"
      | key s1 c s2 where "scanstring s = Inr (key, s1)" "skip_ws s1 = c # s2"
          "scan_once n (skip_ws s2) = Inl e"
      | key s1 c s2 "value" s3 nextchar s4 q s5 pairs' where
          "scanstring s = Inr (key, s1)" "skip_ws s1 = c # s2"
          "scan_once n (skip_ws s2) = Inr (value, s3)" "skip_ws s3 = nextchar # s4"
          "skip_ws s4 = q # s5" "JSONObject_loop n pairs' s5 = Inl e"
      by blast
    then show ?thesis
    proof cases
      case 1
      then show ?thesis .
    next
      case 2
      have "2 * length (skip_ws s2) + 1 \<le> n"
        using scanstring_shorter [OF 2(1)] skip_ws_Cons_shorter [OF 2(2)] length_skip_ws [of s2] b
        by linarith
      with 2(3) show ?thesis by (rule IH1)
    next
      case 3
      have "2 * length s5 + 2 \<le> n"
        using scanstring_shorter [OF 3(1)] skip_ws_Cons_shorter [OF 3(2)] length_skip_ws [of s2]
          shorter [OF 3(3)] skip_ws_Cons_shorter [OF 3(4)] skip_ws_Cons_shorter [OF 3(5)] b
        by linarith
      with 3(6) show ?thesis by (rule IH2)
    qed
  qed
  have 3: "e = JSONDecodeError"
    if a: "JSONArray_loop (Suc n) vals s = Inl e" and b: "2 * length s + 2 \<le> Suc n"
    for vals s e
  proof -
    from JSONArray_loop_Inl_cases [OF a] consider "e = JSONDecodeError"
      | "scan_once n s = Inl e"
      | "value" s1 nextchar s2 vals' where "scan_once n s = Inr (value, s1)"
          "skip_ws s1 = nextchar # s2" "JSONArray_loop n vals' (skip_ws s2) = Inl e"
      by blast
    then show ?thesis
    proof cases
      case 1
      then show ?thesis .
    next
      case 2
      moreover have "2 * length s + 1 \<le> n" using b by simp
      ultimately show ?thesis by (rule IH1)
    next
      case 3
      have "2 * length (skip_ws s2) + 2 \<le> n"
        using shorter [OF 3(1)] skip_ws_Cons_shorter [OF 3(2)] length_skip_ws [of s2] b
        by linarith
      with 3(3) show ?thesis by (rule IH3)
    qed
  qed
  from 1 2 3 show ?case by blast
qed

lemma json_loads_error_kind: "json_loads s = Inl e \<Longrightarrow> e = JSONDecodeError"
proof -
  assume a: "json_loads s = Inl e"
  have fuel: "2 * length (skip_ws s) + 1 \<le> 2 * length s + 1"
    using length_skip_ws [of s] by simp
  show ?thesis
  proof (cases "scan_once (2 * length s + 1) (skip_ws s)")
    case (Inl e')
    with scan_fuel [of "2 * length s + 1"] fuel have "e' = JSONDecodeError" by blast
    with a Inl show ?thesis
      by (auto simp: json_loads_def split: if_splits)
  next
    case (Inr p)
    with a show ?thesis
      by (auto simp: json_loads_def split: if_splits prod.splits)
  qed
qed

lemma json_loads_error:
  "\<not> prefix [0xFEFF] s \<Longrightarrow> scan_once (2 * length s + 1) (skip_ws s) = Inl e \<Longrightarrow>
   json_loads s = Inl e"
  by (simp add: json_loads_def)

section \<open>Saving and loading\<close>




section \<open>Loading at startup\<close>

text \<open>
  C8: when the tasks file is missing, startup succeeds with the empty store; when the
  file holds a document that the JSON decoder rejects, the only error the decoder
  raises is \<open>JSONDecodeError\<close>, nothing catches it, and startup ends with it.
\<close>

theorem load_tasks_missing_or_malformed:
  "TaskMaster_init lower None = Inr (Loaded init_state) \<and> tasks init_state = [] \<and>
   (json_loads doc = Inl e \<longrightarrow>
      e = JSONDecodeError \<and> TaskMaster_init lower (Some doc) = Inl JSONDecodeError)"
  using json_loads_error_kind [of doc e]
  by (auto simp: TaskMaster_init_def load_tasks_def init_state_def)

theorem load_tasks_missing_or_malformed_witness:
  "json_loads (py ''[{'' @ [0x22] @ py ''text'' @ [0x22] @ py '': '' @ [0x22] @ py ''Buy milk'') =
     Inl JSONDecodeError \<and>
   TaskMaster_init ascii_lower
     (Some (py ''[{'' @ [0x22] @ py ''text'' @ [0x22] @ py '': '' @ [0x22] @ py ''Buy milk'')) =
     Inl JSONDecodeError"
proof -
  let ?doc = "py ''[{'' @ [0x22] @ py ''text'' @ [0x22] @ py '': '' @ [0x22] @ py ''Buy milk''"
  let ?D = "[0x5B, 0x7B, 0x22, 0x74, 0x65, 0x78, 0x74, 0x22, 0x3A, 0x20, 0x22,
      0x42, 0x75, 0x79, 0x20, 0x6D, 0x69, 0x6C, 0x6B] :: pystr"
  have doc: "?doc = ?D"
    by (simp add: py_def)
  have fuel: "2 * length ?D + 1 = Suc (Suc (Suc (Suc (Suc 34))))"
    by simp
  have ws: "skip_ws ?D = ?D"
    by simp
  have scan: "scan_once (Suc (Suc (Suc (Suc (Suc n))))) ?D = Inl JSONDecodeError" for n
    by (simp add: append_char_def)
  have "scan_once (2 * length ?D + 1) (skip_ws ?D) = Inl JSONDecodeError"
    by (simp only: fuel ws scan)
  then have "json_loads ?D = Inl JSONDecodeError"
    by (rule json_loads_error [rotated]) simp
  then have "json_loads ?doc = Inl JSONDecodeError"
    by (simp only: doc)
  with load_tasks_missing_or_malformed [of ascii_lower ?doc JSONDecodeError] show ?thesis
    by blast
qed

end
